theory Spec2Isabelle
  imports Complex_Main "HOL-Library.Sublist"
begin

section \<open>Python objects, errors and the world\<close>

text \<open>
  The package \<open>jduimage\<close> wraps one array buffer in an \<open>Image\<close> object and rebinds the
  attribute \<open>data\<close> of that object in every method. The model keeps Python's object
  structure: a heap of objects addressed by position, a table of \<open>Image\<close> objects (each
  one holds the address bound to its \<open>data\<close> attribute), a log of the calls made into
  OpenCV and of the directories created, and the set of paths that exist on disk.

  An array is its \<open>shape\<close> tuple together with its elements as nested lists (row by row);
  element types are not tracked.
\<close>

datatype nd = Sc int | Ar "nd list"

record ndarray =
  nd_shape :: "nat list"
  nd_body :: nd

datatype val =
    VNone
  | VInt int
  | VReal real
  | VArr ndarray
  | VImg nat
  | VTuple "val list"

text \<open>
  \<open>ValueError\<close> and \<open>TypeError\<close> stand for the \<open>raise\<close> statements written in the
  package, with their messages: these are its validation checks. What the interpreter
  raises on its own (a missing attribute, an index out of range, a division by zero, a
  failing builtin such as tuple unpacking, \<open>range\<close>, \<open>max\<close> of an empty sequence or
  \<open>math.asin\<close>) and what OpenCV or numpy raise inside a call have constructors of their
  own, whatever their Python class is.
\<close>

datatype error =
    ValueError string
  | TypeError string
  | AttributeError string
  | IndexError
  | ZeroDivisionError
  | BuiltinError string
  | LibError

fun is_validation :: "error \<Rightarrow> bool" where
  "is_validation (ValueError msg) = True"
| "is_validation (TypeError msg) = True"
| "is_validation e = False"

text \<open>
  An argument handed to a library primitive is an object or a string: a path, a window
  title, or the name of a library constant such as \<open>cv.MORPH_OPEN\<close>. Strings are kept
  apart from the heap objects: no primitive the package calls returns one.
\<close>

datatype arg = Obj val | Str string

datatype effect = CvCall string "arg list" | Mkdir string

record world =
  objects :: "val list"
  images :: "nat list"
  effects :: "effect list"
  paths :: "string list"

text \<open>
  The libraries are a parameter of the model: \<open>L name args\<close> is what the primitive
  \<open>name\<close> returns on \<open>args\<close>, or \<open>None\<close> when it raises. Calls into OpenCV are logged in
  \<open>effects\<close>; numpy's array arithmetic is not.
\<close>

type_synonym lib = "string \<Rightarrow> arg list \<Rightarrow> val option"

type_synonym 'a m = "world \<Rightarrow> (error + 'a) \<times> world"

definition ok :: "'a \<Rightarrow> 'a m" where
  "ok x \<sigma> = (Inr x, \<sigma>)"

definition raise :: "error \<Rightarrow> 'a m" where
  "raise e \<sigma> = (Inl e, \<sigma>)"

definition seq :: "'a m \<Rightarrow> ('a \<Rightarrow> 'b m) \<Rightarrow> 'b m" where
  "seq m f \<sigma> = (case m \<sigma> of (Inl e, \<sigma>') \<Rightarrow> (Inl e, \<sigma>') | (Inr x, \<sigma>') \<Rightarrow> f x \<sigma>')"

definition cv_call :: "lib \<Rightarrow> string \<Rightarrow> arg list \<Rightarrow> val m" where
  "cv_call L name args \<sigma> =
     (let \<sigma>' = \<sigma>\<lparr>effects := effects \<sigma> @ [CvCall name args]\<rparr>
      in case L name args of None \<Rightarrow> (Inl LibError, \<sigma>') | Some v \<Rightarrow> (Inr v, \<sigma>'))"

definition np_call :: "lib \<Rightarrow> string \<Rightarrow> arg list \<Rightarrow> val m" where
  "np_call L name args \<sigma> =
     (case L name args of None \<Rightarrow> (Inl LibError, \<sigma>) | Some v \<Rightarrow> (Inr v, \<sigma>))"

definition new_object :: "val \<Rightarrow> nat m" where
  "new_object v \<sigma> = (Inr (length (objects \<sigma>)), \<sigma>\<lparr>objects := objects \<sigma> @ [v]\<rparr>)"

definition new_image :: "nat \<Rightarrow> nat m" where
  "new_image a \<sigma> = (Inr (length (images \<sigma>)), \<sigma>\<lparr>images := images \<sigma> @ [a]\<rparr>)"

definition get_data :: "nat \<Rightarrow> nat m" where
  "get_data self \<sigma> = (Inr (images \<sigma> ! self), \<sigma>)"

definition set_data :: "nat \<Rightarrow> nat \<Rightarrow> unit m" where
  "set_data self a \<sigma> = (Inr (), \<sigma>\<lparr>images := (images \<sigma>)[self := a]\<rparr>)"

definition deref :: "nat \<Rightarrow> val m" where
  "deref a \<sigma> = (Inr (objects \<sigma> ! a), \<sigma>)"

definition overwrite :: "nat \<Rightarrow> val \<Rightarrow> unit m" where
  "overwrite a v \<sigma> = (Inr (), \<sigma>\<lparr>objects := (objects \<sigma>)[a := v]\<rparr>)"

text \<open>\<open>self.data\<close> read as a value, and \<open>self.data = v\<close> for a value the method has just
  obtained (a new object).\<close>

definition data_val :: "nat \<Rightarrow> val m" where
  "data_val self = seq (get_data self) deref"

definition assign :: "nat \<Rightarrow> val \<Rightarrow> val m" where
  "assign self v = seq (new_object v) (\<lambda>a. seq (set_data self a) (\<lambda>u. ok VNone))"

definition item :: "'a list \<Rightarrow> nat \<Rightarrow> 'a m" where
  "item xs i = (if i < length xs then ok (xs ! i) else raise IndexError)"

definition py_or :: "bool m \<Rightarrow> bool m \<Rightarrow> bool m" where
  "py_or p q = seq p (\<lambda>b. if b then ok True else q)"

definition py_int :: "real \<Rightarrow> int" where
  "py_int x = (if 0 \<le> x then \<lfloor>x\<rfloor> else \<lceil>x\<rceil>)"

section \<open>Arrays: shape, slices, index arrays\<close>

fun conforms :: "nat list \<Rightarrow> nd \<Rightarrow> bool" where
  "conforms [] (Sc v) = True"
| "conforms (n # ns) (Ar xs) = (length xs = n \<and> (\<forall>x\<in>set xs. conforms ns x))"
| "conforms ns b = False"

definition wf_array :: "ndarray \<Rightarrow> bool" where
  "wf_array a = conforms (nd_shape a) (nd_body a)"

text \<open>A slice bound \<open>i\<close> on an axis of length \<open>n\<close>, as Python clips it.\<close>

definition slice_bound :: "int \<Rightarrow> nat \<Rightarrow> nat" where
  "slice_bound i n = (if i < 0 then nat (max (i + int n) 0) else min (nat i) n)"

definition py_slice :: "int \<Rightarrow> int \<Rightarrow> 'a list \<Rightarrow> 'a list" where
  "py_slice start stop xs =
     (let n = length xs; a = slice_bound start n; b = slice_bound stop n
      in take (b - a) (drop a xs))"

definition slice_len :: "int \<Rightarrow> int \<Rightarrow> nat \<Rightarrow> nat" where
  "slice_len start stop n = slice_bound stop n - slice_bound start n"

definition rows_of :: "nd \<Rightarrow> nd list" where
  "rows_of b = (case b of Ar xs \<Rightarrow> xs | Sc v \<Rightarrow> [])"

text \<open>The entry of an array at row \<open>i\<close> and column \<open>j\<close> (a number, or the channel vector
  of a colour image).\<close>

definition pixel :: "ndarray \<Rightarrow> nat \<Rightarrow> nat \<Rightarrow> nd" where
  "pixel a i j = rows_of (rows_of (nd_body a) ! i) ! j"

text \<open>\<open>a[r0:r1, c0:c1]\<close>: numpy refuses two indices on an array with fewer than two axes.\<close>

definition slice2 :: "ndarray \<Rightarrow> int \<times> int \<Rightarrow> int \<times> int \<Rightarrow> error + ndarray" where
  "slice2 a r c =
     (case nd_shape a of
        h # w # rest \<Rightarrow>
          Inr \<lparr>nd_shape = slice_len (fst r) (snd r) h # slice_len (fst c) (snd c) w # rest,
               nd_body = Ar (map (\<lambda>row. Ar (py_slice (fst c) (snd c) (rows_of row)))
                                 (py_slice (fst r) (snd r) (rows_of (nd_body a))))\<rparr>
      | short \<Rightarrow> Inl IndexError)"

definition getitem_slices :: "val \<Rightarrow> int \<times> int \<Rightarrow> int \<times> int \<Rightarrow> val m" where
  "getitem_slices v r c =
     (case v of
        VArr a \<Rightarrow> (case slice2 a r c of Inl e \<Rightarrow> raise e | Inr b \<Rightarrow> ok (VArr b))
      | other \<Rightarrow> raise (BuiltinError ''object is not subscriptable''))"

text \<open>\<open>a[:, idx]\<close> and \<open>a[:, idx, :]\<close> for a list of integer indices: negative indices count
  from the end, an index outside the axis raises.\<close>

definition norm_index :: "nat \<Rightarrow> int \<Rightarrow> nat option" where
  "norm_index n i =
     (let j = (if i < 0 then i + int n else i)
      in if 0 \<le> j \<and> j < int n then Some (nat j) else None)"

definition take_axis1 :: "ndarray \<Rightarrow> int list \<Rightarrow> error + ndarray" where
  "take_axis1 a idx =
     (case nd_shape a of
        h # w # rest \<Rightarrow>
          (if \<exists>i\<in>set idx. norm_index w i = None then Inl IndexError
           else Inr \<lparr>nd_shape = h # length idx # rest,
                     nd_body = Ar (map (\<lambda>row. Ar (map (\<lambda>i. rows_of row ! the (norm_index w i)) idx))
                                       (rows_of (nd_body a)))\<rparr>)
      | short \<Rightarrow> Inl IndexError)"

definition take_axis0 :: "ndarray \<Rightarrow> int list \<Rightarrow> error + ndarray" where
  "take_axis0 a idx =
     (case nd_shape a of
        h # rest \<Rightarrow>
          (if \<exists>i\<in>set idx. norm_index h i = None then Inl IndexError
           else Inr \<lparr>nd_shape = length idx # rest,
                     nd_body = Ar (map (\<lambda>i. rows_of (nd_body a) ! the (norm_index h i)) idx)\<rparr>)
      | [] \<Rightarrow> Inl IndexError)"

fun zeros_body :: "nat list \<Rightarrow> nd" where
  "zeros_body [] = Sc 0"
| "zeros_body (n # ns) = Ar (replicate n (zeros_body ns))"

definition np_zeros :: "nat list \<Rightarrow> ndarray" where
  "np_zeros s = \<lparr>nd_shape = s, nd_body = zeros_body s\<rparr>"

section \<open>ImageStructure: construction and the derived properties\<close>

definition path_exists :: "string \<Rightarrow> bool m" where
  "path_exists p \<sigma> = (Inr (p \<in> set (paths \<sigma>)), \<sigma>)"

definition load_image :: "lib \<Rightarrow> string \<Rightarrow> val m" where
  "load_image L path =
     seq (path_exists path) (\<lambda>found.
     if \<not> found then raise (ValueError (''image at '' @ path @ '' not found''))
     else cv_call L ''imread'' [Str path, Str ''IMREAD_COLOR''])"

definition convert_array :: "nat \<Rightarrow> nat m" where
  "convert_array a =
     seq (deref a) (\<lambda>v.
     case v of VArr arr \<Rightarrow> ok a
     | other \<Rightarrow> raise (TypeError ''Wrong image type for conversion''))"

text \<open>\<open>Image(input)\<close>: the argument is a Python string (a path to load) or, at some
  address, any other object. An array is bound to \<open>data\<close> as it is (the same object, not
  a copy); anything else is refused.\<close>

datatype input = FromPath string | FromObject nat

definition Image_init :: "lib \<Rightarrow> input \<Rightarrow> nat m" where
  "Image_init L inp =
     (case inp of
        FromPath path \<Rightarrow>
          seq (load_image L path) (\<lambda>loaded.
          seq (new_object loaded) (\<lambda>a. new_image a))
      | FromObject p \<Rightarrow>
          seq (deref p) (\<lambda>v.
          case v of
            VArr arr \<Rightarrow> seq (convert_array p) (\<lambda>a. new_image a)
          | other \<Rightarrow> raise (TypeError ''Bad type'')))"

definition shape :: "nat \<Rightarrow> nat list m" where
  "shape self =
     seq (data_val self) (\<lambda>v.
     case v of VArr a \<Rightarrow> ok (nd_shape a)
     | other \<Rightarrow> raise (AttributeError ''shape''))"

definition width :: "nat \<Rightarrow> nat m" where
  "width self = seq (shape self) (\<lambda>s. item s 1)"

definition height :: "nat \<Rightarrow> nat m" where
  "height self = seq (shape self) (\<lambda>s. item s 0)"

definition dim :: "nat \<Rightarrow> nat m" where
  "dim self = seq (shape self) (\<lambda>s. ok (length s))"

section \<open>Image: deepcopy, crop\<close>

definition deepcopy :: "lib \<Rightarrow> nat \<Rightarrow> nat m" where
  "deepcopy L self = seq (get_data self) (\<lambda>a. Image_init L (FromObject a))"

definition Image_of :: "lib \<Rightarrow> val \<Rightarrow> nat m" where
  "Image_of L v = seq (new_object v) (\<lambda>a. Image_init L (FromObject a))"

definition crop :: "lib \<Rightarrow> int list \<Rightarrow> int list \<Rightarrow> bool \<Rightarrow> nat \<Rightarrow> val m" where
  "crop L tlp brp inplace self =
     seq (py_or (seq (item tlp 0) (\<lambda>a. ok (a < 0)))
                (seq (item tlp 1) (\<lambda>b. ok (b < 0)))) (\<lambda>bad_tl.
     if bad_tl then raise (ValueError ''Wrong tl'') else
     seq (py_or (seq (item brp 0) (\<lambda>a. seq (height self) (\<lambda>h. ok (a > int h))))
                (seq (item brp 1) (\<lambda>b. seq (width self) (\<lambda>w. ok (b > int w))))) (\<lambda>bad_br.
     if bad_br then raise (ValueError ''Wrong br'') else
     seq (py_or (seq (item tlp 0) (\<lambda>a. seq (item brp 0) (\<lambda>b. ok (a \<ge> b))))
                (seq (item tlp 1) (\<lambda>a. seq (item brp 1) (\<lambda>b. ok (a \<ge> b))))) (\<lambda>inverted.
     if inverted then raise (ValueError ''br must be bigger than tl'') else
     seq (data_val self) (\<lambda>d.
     seq (item tlp 0) (\<lambda>t0. seq (item brp 0) (\<lambda>b0.
     seq (item tlp 1) (\<lambda>t1. seq (item brp 1) (\<lambda>b1.
     seq (getitem_slices d (t0, b0 + 1) (t1, b1 + 1)) (\<lambda>cropped.
     if inplace then assign self cropped else seq (Image_of L cropped) (\<lambda>i. ok (VImg i)))))))))))"

definition crop2 :: "lib \<Rightarrow> int list \<Rightarrow> int \<Rightarrow> int \<Rightarrow> bool \<Rightarrow> nat \<Rightarrow> val m" where
  "crop2 L tlp h w inplace self =
     seq (py_or (seq (item tlp 0) (\<lambda>a. ok (a < 0)))
                (seq (item tlp 1) (\<lambda>b. ok (b < 0)))) (\<lambda>bad_tl.
     if bad_tl then raise (ValueError ''Wrong tl'') else
     seq (data_val self) (\<lambda>d.
     seq (item tlp 0) (\<lambda>t0. seq (item tlp 1) (\<lambda>t1.
     seq (getitem_slices d (t0, t0 + h) (t1, t1 + w)) (\<lambda>cropped.
     if inplace then assign self cropped else seq (Image_of L cropped) (\<lambda>i. ok (VImg i)))))))"

section \<open>Small Python builtins\<close>

definition py_getitem :: "val \<Rightarrow> int \<Rightarrow> val m" where
  "py_getitem v i =
     (case v of
        VTuple xs \<Rightarrow> (case norm_index (length xs) i of None \<Rightarrow> raise IndexError
                      | Some j \<Rightarrow> ok (xs ! j))
      | other \<Rightarrow> raise (BuiltinError ''object is not subscriptable''))"

definition py_range :: "int \<Rightarrow> int \<Rightarrow> int \<Rightarrow> int list m" where
  "py_range start stop step =
     (if step = 0 then raise (BuiltinError ''range() arg 3 must not be zero'')
      else if 0 < step
        then ok (map (\<lambda>k. start + int k * step) [0 ..< nat ((stop - start + step - 1) div step)])
        else ok (map (\<lambda>k. start + int k * step) [0 ..< nat ((start - stop - step - 1) div (- step))]))"

definition py_max :: "int list \<Rightarrow> int m" where
  "py_max xs = (if xs = [] then raise (BuiltinError ''max() arg is an empty sequence'')
                else ok (Max (set xs)))"

definition py_min :: "int list \<Rightarrow> int m" where
  "py_min xs = (if xs = [] then raise (BuiltinError ''min() arg is an empty sequence'')
                else ok (Min (set xs)))"

fun digits10 :: "nat \<Rightarrow> string" where
  "digits10 n = (if n < 10 then [char_of (48 + n)]
                 else digits10 (n div 10) @ [char_of (48 + n mod 10)])"

text \<open>\<open>s.split(c)\<close> for a one-character separator, \<open>c.join(xs)\<close> and \<open>s.replace(a, b)\<close> for
  single characters.\<close>

fun py_split :: "char \<Rightarrow> string \<Rightarrow> string list" where
  "py_split c [] = [[]]"
| "py_split c (x # xs) =
     (if x = c then [] # py_split c xs
      else (case py_split c xs of w # ws \<Rightarrow> (x # w) # ws | [] \<Rightarrow> [[x]]))"

fun py_join :: "string \<Rightarrow> string list \<Rightarrow> string" where
  "py_join sep [] = []"
| "py_join sep [x] = x"
| "py_join sep (x # y # ys) = x @ sep @ py_join sep (y # ys)"

definition py_replace :: "char \<Rightarrow> char \<Rightarrow> string \<Rightarrow> string" where
  "py_replace a b s = map (\<lambda>c. if c = a then b else c) s"

text \<open>The attributes of an array that the model knows; a numpy array has no attribute
  \<open>height\<close> or \<open>width\<close>.\<close>

definition ndarray_attr :: "val \<Rightarrow> string \<Rightarrow> val m" where
  "ndarray_attr v name =
     (case v of
        VArr a \<Rightarrow>
          (if name = ''shape'' then ok (VTuple (map (\<lambda>n. VInt (int n)) (nd_shape a)))
           else if name = ''ndim'' then ok (VInt (int (length (nd_shape a))))
           else raise (AttributeError name))
      | other \<Rightarrow> raise (AttributeError name))"

definition np_zeros_of :: "int list \<Rightarrow> val m" where
  "np_zeros_of dims =
     (if \<exists>d\<in>set dims. d < 0 then raise LibError
      else ok (VArr (np_zeros (map nat dims))))"

definition cv_assign :: "lib \<Rightarrow> string \<Rightarrow> arg list \<Rightarrow> nat \<Rightarrow> val m" where
  "cv_assign L name args self = seq (cv_call L name args) (\<lambda>r. assign self r)"

definition np_assign :: "lib \<Rightarrow> string \<Rightarrow> arg list \<Rightarrow> nat \<Rightarrow> val m" where
  "np_assign L name args self = seq (np_call L name args) (\<lambda>r. assign self r)"

section \<open>GeneralMixin\<close>

definition channel :: "lib \<Rightarrow> int \<Rightarrow> nat \<Rightarrow> val m" where
  "channel L c self =
     seq (dim self) (\<lambda>n.
     if n \<noteq> 2 then
       seq (data_val self) (\<lambda>d.
       seq (cv_call L ''split'' [Obj d]) (\<lambda>channels.
       seq (py_getitem channels c) (\<lambda>ch. assign self ch)))
     else ok VNone)"

datatype position = Mid | At int

definition split :: "lib \<Rightarrow> string \<Rightarrow> position \<Rightarrow> nat \<Rightarrow> val m" where
  "split L direction position self =
     (if direction \<notin> set [''h'', ''horizontal'', ''v'', ''vertical'']
      then raise (ValueError ''Wrong orientation'')
      else
        seq (height self) (\<lambda>h. seq (width self) (\<lambda>w.
        let tl1 = [0, 0]; br2 = [int h, int w] in
        seq (if direction \<in> set [''h'', ''horizontal'']
             then (let p = (case position of Mid \<Rightarrow> int h div 2 | At k \<Rightarrow> k)
                   in ok ([p, int w], [p, 0]))
             else (let p = (case position of Mid \<Rightarrow> int w div 2 | At k \<Rightarrow> k)
                   in ok ([int h, p], [0, p]))) (\<lambda>(br1, tl2).
        seq (crop L tl1 br1 False self) (\<lambda>first.
        seq (crop L tl2 br2 False self) (\<lambda>secon.
        ok (VTuple [first, secon])))))))"

definition negate :: "lib \<Rightarrow> nat \<Rightarrow> val m" where
  "negate L self =
     seq (dim self) (\<lambda>n.
     if n \<noteq> 2 then raise (ValueError ''Negation only on 2D images'')
     else seq (data_val self) (\<lambda>d. np_assign L ''invert'' [Obj d] self))"

definition blur :: "lib \<Rightarrow> int \<Rightarrow> string \<Rightarrow> nat \<Rightarrow> val m" where
  "blur L ksize method self =
     (if method \<notin> set [''gauss'', ''average'', ''median'', ''bilateral'']
        then raise (ValueError ''Unexpected method'')
      else if ksize < 3 then raise (ValueError ''Size too small, must be bigger than 3.'')
      else if ksize mod 2 = 0 then raise (ValueError ''Size must be odd'')
      else
        seq (data_val self) (\<lambda>d.
        if method = ''gauss''
          then cv_assign L ''GaussianBlur'' [Obj d, Obj (VTuple [VInt ksize, VInt ksize]), Obj (VInt 0)] self
        else if method = ''average''
          then cv_assign L ''blur'' [Obj d, Obj (VTuple [VInt ksize, VInt ksize])] self
        else if method = ''median''
          then cv_assign L ''medianBlur'' [Obj d, Obj (VInt ksize)] self
        else if method = ''bilateral''
          then cv_assign L ''bilateralFilter'' [Obj d, Obj (VInt ksize), Obj (VInt 100), Obj (VInt 100)] self
        else ok VNone))"

definition gaussian_blur :: "lib \<Rightarrow> int \<Rightarrow> real \<Rightarrow> nat \<Rightarrow> val m" where
  "gaussian_blur L ksize sigma self =
     seq (data_val self) (\<lambda>d.
     cv_assign L ''GaussianBlur'' [Obj d, Obj (VTuple [VInt ksize, VInt ksize]), Obj (VReal sigma)] self)"

definition resize :: "lib \<Rightarrow> string \<Rightarrow> real \<Rightarrow> arg \<Rightarrow> nat \<Rightarrow> val m" where
  "resize L param value interp self =
     (if param \<notin> set [''width'', ''height'', ''ratio'']
        then raise (ValueError ''Unexpected parameter'')
      else if value \<le> 0 then raise (ValueError ''Value must be bigger than 0'')
      else
        seq (shape self) (\<lambda>s.
        if length (take 2 s) \<noteq> 2 then raise (BuiltinError ''not enough values to unpack'')
        else
          let h = s ! 0; w = s ! 1 in
          seq (if param = ''height'' then
                 (if h = 0 then raise ZeroDivisionError
                  else ok (VTuple [VInt (py_int (real w * (of_int (py_int value) / real h))),
                                   VInt (py_int value)]))
               else if param = ''width'' then
                 (if w = 0 then raise ZeroDivisionError
                  else ok (VTuple [VInt (py_int value),
                                   VInt (py_int (real h * (of_int (py_int value) / real w)))]))
               else if param = ''ratio'' then
                 ok (VTuple [VInt (py_int (real w * value)), VInt (py_int (real h * value))])
               else ok (VTuple [VInt (int w), VInt (int h)])) (\<lambda>target.
          seq (data_val self) (\<lambda>d.
          cv_assign L ''resize'' [Obj d, Obj target, interp] self))))"

definition full_resize :: "lib \<Rightarrow> int list \<Rightarrow> arg \<Rightarrow> nat \<Rightarrow> val m" where
  "full_resize L dims interp self =
     seq (data_val self) (\<lambda>d.
     cv_assign L ''resize'' [Obj d, Obj (VTuple (map VInt dims)), interp] self)"

definition rotate90 :: "lib \<Rightarrow> nat \<Rightarrow> val m" where
  "rotate90 L self =
     seq (data_val self) (\<lambda>d. cv_assign L ''rotate'' [Obj d, Str ''ROTATE_90_CLOCKWISE''] self)"

definition rotate_img :: "lib \<Rightarrow> real \<Rightarrow> int list \<Rightarrow> nat \<Rightarrow> val m" where
  "rotate_img L angle center self =
     seq (cv_call L ''getRotationMatrix2D'' [Obj (VTuple (map VInt center)), Obj (VReal (1 * angle)), Obj (VReal 1)])
       (\<lambda>rot_mat.
     seq (data_val self) (\<lambda>d.
     seq (shape self) (\<lambda>s.
     cv_assign L ''warpAffine''
       [Obj d, Obj rot_mat, Obj (VTuple (map (\<lambda>n. VInt (int n)) (rev (take 2 s)))), Str ''INTER_NEAREST'']
       self)))"

definition equalize_hist :: "lib \<Rightarrow> real \<Rightarrow> nat \<Rightarrow> val m" where
  "equalize_hist L rate self =
     seq (dim self) (\<lambda>n.
     if n \<noteq> 2 then raise (ValueError ''Equalize only on 2D images'')
     else
       seq (data_val self) (\<lambda>d.
       seq (np_call L ''astype'' [Obj d, Str ''uint8'']) (\<lambda>d8.
       seq (cv_assign L ''equalizeHist'' [Obj d8] self) (\<lambda>u.
       seq (data_val self) (\<lambda>eq.
       seq (np_call L ''histogram'' [Obj eq, Obj (VInt 255)]) (\<lambda>hg.
       seq (np_call L ''cumsum'' [Obj hg]) (\<lambda>hist.
       seq (np_call L ''first_where_le'' [Obj (VReal rate), Obj hist]) (\<lambda>lowest_value.
       seq (np_call L ''last_where_ge'' [Obj (VReal (1 - rate)), Obj hist]) (\<lambda>highest_value.
       seq (get_data self) (\<lambda>a.
       seq (np_call L ''set_where_less'' [Obj eq, Obj lowest_value]) (\<lambda>low.
       seq (overwrite a low) (\<lambda>u.
       seq (np_call L ''set_where_greater'' [Obj low, Obj highest_value]) (\<lambda>high.
       seq (overwrite a high) (\<lambda>u. ok VNone))))))))))))))"

definition distance_transform :: "lib \<Rightarrow> nat \<Rightarrow> val m" where
  "distance_transform L self =
     seq (dim self) (\<lambda>n.
     if n \<noteq> 2 then raise (ValueError ''Distance transform only on 2D images'')
     else
       seq (data_val self) (\<lambda>d.
       seq (cv_assign L ''distanceTransform'' [Obj d, Str ''DIST_L2'', Obj (VInt 3)] self) (\<lambda>u.
       seq (data_val self) (\<lambda>dist.
       seq (get_data self) (\<lambda>a.
       seq (cv_call L ''normalize'' [Obj dist, Obj dist, Obj (VInt 0), Obj (VInt 1), Str ''NORM_MINMAX'']) (\<lambda>normed.
       seq (overwrite a normed) (\<lambda>u.
       seq (np_call L ''mul'' [Obj normed, Obj (VInt 255)]) (\<lambda>scaled.
       np_assign L ''uint8'' [Obj scaled] self))))))))"

section \<open>ThresholdMixin\<close>

definition py_unpack2 :: "val \<Rightarrow> (val \<times> val) m" where
  "py_unpack2 v =
     (case v of VTuple [a, b] \<Rightarrow> ok (a, b)
      | other \<Rightarrow> raise (BuiltinError ''cannot unpack''))"

definition adaptive_threshold :: "lib \<Rightarrow> int \<Rightarrow> int \<Rightarrow> int \<Rightarrow> nat \<Rightarrow> val m" where
  "adaptive_threshold L blursize blocksize c self =
     seq (dim self) (\<lambda>n.
     if n \<noteq> 2 then raise (ValueError ''Only on 2D images'')
     else
       seq (if 0 < blursize then blur L blursize ''gauss'' self else ok VNone) (\<lambda>u.
       seq (data_val self) (\<lambda>d.
       cv_assign L ''adaptiveThreshold''
         [Obj d, Obj (VInt 255), Str ''ADAPTIVE_THRESH_MEAN_C'', Str ''THRESH_BINARY_INV'',
          Obj (VInt blocksize), Obj (VInt c)] self)))"

definition binarize :: "lib \<Rightarrow> int \<Rightarrow> nat \<Rightarrow> val m" where
  "binarize L threshold self =
     seq (dim self) (\<lambda>n.
     if n \<noteq> 2 then raise (ValueError ''Only on 2D images'')
     else
       seq (data_val self) (\<lambda>d.
       seq (if threshold = - 1
            then cv_call L ''threshold'' [Obj d, Obj (VInt 0), Obj (VInt 255), Str ''THRESH_BINARY + THRESH_OTSU'']
            else cv_call L ''threshold'' [Obj d, Obj (VInt threshold), Obj (VInt 255), Str ''THRESH_BINARY''])
         (\<lambda>res.
       seq (py_unpack2 res) (\<lambda>(retval, binary). assign self binary))))"

section \<open>MorphologicalMixin\<close>

definition sharpen :: "lib \<Rightarrow> nat \<Rightarrow> val m" where
  "sharpen L self =
     seq (dim self) (\<lambda>n.
     if n \<noteq> 2 then raise (ValueError ''Only on 2D images'')
     else
       let kernel = VArr \<lparr>nd_shape = [3, 3],
                          nd_body = Ar [Ar [Sc (- 1), Sc (- 1), Sc (- 1)],
                                        Ar [Sc (- 1), Sc 9, Sc (- 1)],
                                        Ar [Sc (- 1), Sc (- 1), Sc (- 1)]]\<rparr>
       in seq (data_val self) (\<lambda>d. cv_assign L ''filter2D'' [Obj d, Obj (VInt (- 1)), Obj kernel] self))"

text \<open>\<open>open\<close>, \<open>close\<close>, \<open>dilate\<close>, \<open>erode\<close>, \<open>tophat\<close> and \<open>blackhat\<close> have one body, up to
  the operation code handed to \<open>cv.morphologyEx\<close> and the shape of \<open>size\<close>.\<close>

definition morphology :: "lib \<Rightarrow> string \<Rightarrow> val \<Rightarrow> val \<Rightarrow> nat \<Rightarrow> val m" where
  "morphology L code ksize element self =
     seq (dim self) (\<lambda>n.
     if n \<noteq> 2 then raise (ValueError ''Only on 2D images'')
     else
       seq (cv_call L ''getStructuringElement'' [Obj element, Obj ksize]) (\<lambda>kernel.
       seq (data_val self) (\<lambda>d.
       cv_assign L ''morphologyEx'' [Obj d, Str code, Obj kernel] self)))"

definition open_img :: "lib \<Rightarrow> val \<Rightarrow> val \<Rightarrow> nat \<Rightarrow> val m" where
  "open_img L ksize element self = morphology L ''MORPH_OPEN'' ksize element self"

definition close_img :: "lib \<Rightarrow> val \<Rightarrow> val \<Rightarrow> nat \<Rightarrow> val m" where
  "close_img L ksize element self = morphology L ''MORPH_CLOSE'' ksize element self"

definition dilate :: "lib \<Rightarrow> val \<Rightarrow> val \<Rightarrow> nat \<Rightarrow> val m" where
  "dilate L ksize element self = morphology L ''MORPH_DILATE'' ksize element self"

definition erode :: "lib \<Rightarrow> val \<Rightarrow> val \<Rightarrow> nat \<Rightarrow> val m" where
  "erode L ksize element self = morphology L ''MORPH_ERODE'' ksize element self"

definition tophat :: "lib \<Rightarrow> int \<Rightarrow> val \<Rightarrow> nat \<Rightarrow> val m" where
  "tophat L ksize element self =
     morphology L ''MORPH_TOPHAT'' (VTuple [VInt ksize, VInt ksize]) element self"

definition blackhat :: "lib \<Rightarrow> int \<Rightarrow> val \<Rightarrow> nat \<Rightarrow> val m" where
  "blackhat L ksize element self =
     morphology L ''MORPH_BLACKHAT'' (VTuple [VInt ksize, VInt ksize]) element self"

text \<open>\<open>line_strel\<close>: after the parity check the function builds a square of zeros and reads
  \<open>line.height\<close> on it.\<close>

definition line_strel :: "lib \<Rightarrow> int \<Rightarrow> real \<Rightarrow> val m" where
  "line_strel L ksize angle =
     (if ksize mod 2 \<noteq> 1 then raise (ValueError ''Size must be odd'')
      else
        seq (np_zeros_of [ksize, ksize]) (\<lambda>line.
        seq (ndarray_attr line ''height'') (\<lambda>h.
        seq (np_call L ''floordiv'' [Obj h, Obj (VInt 2)]) (\<lambda>mid.
        seq (np_call L ''set_row'' [Obj line, Obj mid, Obj (VInt 1)]) (\<lambda>line1.
        let center = VTuple [VInt (ksize div 2), VInt (ksize div 2)] in
        seq (cv_call L ''getRotationMatrix2D'' [Obj center, Obj (VReal angle), Obj (VInt 1)]) (\<lambda>tform.
        seq (ndarray_attr line1 ''shape'') (\<lambda>shp.
        seq (cv_call L ''warpAffine'' [Obj line1, Obj tform, Obj shp]) (\<lambda>kernel.
        seq (np_call L ''mul'' [Obj kernel, Obj (VInt 255)]) (\<lambda>scaled.
        np_call L ''astype'' [Obj scaled, Str ''uint8'']))))))))) "

fun algebric_loop :: "lib \<Rightarrow> string \<Rightarrow> int \<Rightarrow> nat \<Rightarrow> int list \<Rightarrow> val \<Rightarrow> val m" where
  "algebric_loop L code ksize self [] result = ok result"
| "algebric_loop L code ksize self (a # angles) result =
     seq (line_strel L ksize (of_int a)) (\<lambda>kernel.
     seq (data_val self) (\<lambda>d.
     seq (cv_call L ''morphologyEx'' [Obj d, Str code, Obj kernel]) (\<lambda>morphed.
     seq (np_call L ''astype'' [Obj morphed, Str ''uint8'']) (\<lambda>temp.
     seq (np_call L ''maximum'' [Obj result, Obj temp]) (\<lambda>result1.
     algebric_loop L code ksize self angles result1)))))"

definition algebric :: "lib \<Rightarrow> string \<Rightarrow> int \<Rightarrow> int \<Rightarrow> nat \<Rightarrow> val m" where
  "algebric L code ksize step self =
     seq (dim self) (\<lambda>n.
     if n \<noteq> 2 then raise (ValueError ''Only on 2D images'')
     else
       seq (shape self) (\<lambda>s.
       let result = VArr (np_zeros s) in
       seq (py_range 0 180 step) (\<lambda>angles.
       seq (algebric_loop L code ksize self angles result) (\<lambda>result1.
       assign self result1))))"

definition algebric_open :: "lib \<Rightarrow> int \<Rightarrow> int \<Rightarrow> nat \<Rightarrow> val m" where
  "algebric_open L ksize step self = algebric L ''MORPH_OPEN'' ksize step self"

definition algebric_dilate :: "lib \<Rightarrow> int \<Rightarrow> int \<Rightarrow> nat \<Rightarrow> val m" where
  "algebric_dilate L ksize step self = algebric L ''MORPH_DILATE'' ksize step self"

definition gabor :: "lib \<Rightarrow> nat \<Rightarrow> val m" where
  "gabor L self =
     seq (cv_call L ''getGaborKernel''
            [Obj (VTuple [VInt 21, VInt 21]), Obj (VInt 40), Obj (VInt (- 45)), Obj (VInt 25), Obj (VInt 1)]) (\<lambda>kernel.
     seq (shape self) (\<lambda>s.
     let result = VArr (np_zeros s) in
     seq (data_val self) (\<lambda>d.
     seq (cv_call L ''filter2D'' [Obj d, Obj (VInt (- 1)), Obj kernel]) (\<lambda>imgfiltered.
     np_assign L ''maximum'' [Obj result, Obj imgfiltered] self))))"

definition edges :: "lib \<Rightarrow> int \<Rightarrow> int \<Rightarrow> nat \<Rightarrow> val m" where
  "edges L thres1 thres2 self =
     seq (data_val self) (\<lambda>d. cv_assign L ''Canny'' [Obj d, Obj (VInt thres1), Obj (VInt thres2)] self)"

definition sobel :: "lib \<Rightarrow> nat \<Rightarrow> val m" where
  "sobel L self =
     seq (data_val self) (\<lambda>d.
     cv_assign L ''Sobel'' [Obj d, Str ''CV_8UC1'', Obj (VInt 1), Obj (VInt 1), Obj (VInt 3)] self)"

section \<open>ColorMixin\<close>

definition colorspace :: "lib \<Rightarrow> string \<Rightarrow> nat \<Rightarrow> val m" where
  "colorspace L code self =
     seq (dim self) (\<lambda>n.
     if n \<noteq> 3 then raise (ValueError ''Colorspace conversion requires 3 channels.'')
     else
       seq (shape self) (\<lambda>s. seq (item s 2) (\<lambda>ch.
       if ch \<noteq> 3 then raise (ValueError (''Excepting 3 channels, found '' @ digits10 ch))
       else seq (data_val self) (\<lambda>d. cv_assign L ''cvtColor'' [Obj d, Str code] self))))"

definition BGR_to_LAB :: "lib \<Rightarrow> nat \<Rightarrow> val m" where
  "BGR_to_LAB L self = colorspace L ''COLOR_BGR2LAB'' self"

definition LAB_to_BGR :: "lib \<Rightarrow> nat \<Rightarrow> val m" where
  "LAB_to_BGR L self = colorspace L ''COLOR_LAB2BGR'' self"

definition BGR_to_HSV :: "lib \<Rightarrow> nat \<Rightarrow> val m" where
  "BGR_to_HSV L self = colorspace L ''COLOR_BGR2HSV'' self"

definition HSV_to_BGR :: "lib \<Rightarrow> nat \<Rightarrow> val m" where
  "HSV_to_BGR L self = colorspace L ''COLOR_HSV2BGR'' self"

definition BGR_to_GRAY :: "lib \<Rightarrow> nat \<Rightarrow> val m" where
  "BGR_to_GRAY L self = colorspace L ''COLOR_BGR2GRAY'' self"

definition to_BGR :: "lib \<Rightarrow> nat \<Rightarrow> val m" where
  "to_BGR L self =
     seq (dim self) (\<lambda>n.
     if n = 2 then seq (data_val self) (\<lambda>d. cv_assign L ''cvtColor'' [Obj d, Str ''COLOR_GRAY2BGR''] self)
     else ok VNone)"

definition to_GRAY :: "lib \<Rightarrow> nat \<Rightarrow> val m" where
  "to_GRAY L self = seq (dim self) (\<lambda>n. if n = 3 then BGR_to_GRAY L self else ok VNone)"

definition rescale_to :: "lib \<Rightarrow> real \<Rightarrow> string \<Rightarrow> nat \<Rightarrow> val m" where
  "rescale_to L full_scale dtype self =
     seq (data_val self) (\<lambda>d.
     seq (np_call L ''first_item_is_uint8'' [Obj d]) (\<lambda>is8.
     if is8 = VInt 1 then ok VNone
     else
       seq (np_call L ''max'' [Obj d]) (\<lambda>max_val.
       seq (np_call L ''min'' [Obj d]) (\<lambda>min_val.
       seq (np_call L ''rescale'' [Obj d, Obj min_val, Obj max_val, Obj (VReal full_scale)]) (\<lambda>temp.
       np_assign L ''astype'' [Obj temp, Str dtype] self)))))"

definition to_8UC1 :: "lib \<Rightarrow> nat \<Rightarrow> val m" where
  "to_8UC1 L self = rescale_to L 255 ''uint8'' self"

definition to_16UC1 :: "lib \<Rightarrow> nat \<Rightarrow> val m" where
  "to_16UC1 L self = rescale_to L 65535 ''uint16'' self"

definition kmeans :: "lib \<Rightarrow> int \<Rightarrow> int \<Rightarrow> real \<Rightarrow> bool \<Rightarrow> nat \<Rightarrow> val m" where
  "kmeans L K maxiter epsilon equalize self =
     seq (dim self) (\<lambda>n.
     seq (if n = 2 then to_BGR L self else ok VNone) (\<lambda>u.
     seq (data_val self) (\<lambda>d.
     seq (np_call L ''reshape'' [Obj d, Obj (VTuple [VInt (- 1), VInt 3])]) (\<lambda>Z0.
     seq (np_call L ''float32'' [Obj Z0]) (\<lambda>Z.
     seq (cv_call L ''kmeans''
            [Obj Z, Obj (VInt K), Obj VNone, Str ''TERM_CRITERIA_EPS + TERM_CRITERIA_MAX_ITER'',
             Obj (VInt maxiter), Obj (VReal epsilon), Obj (VInt 10), Str ''KMEANS_PP_CENTERS''])
       (\<lambda>res.
     seq (py_getitem res 1) (\<lambda>label.
     seq (py_getitem res 2) (\<lambda>center.
     seq (shape self) (\<lambda>s.
     let shp = (\<lambda>ns. VTuple (map (\<lambda>k. VInt (int k)) ns)) in
     if equalize
     then seq (np_call L ''flatten_reshape'' [Obj label, Obj (shp (take 2 s))]) (\<lambda>r.
          np_assign L ''astype'' [Obj r, Str ''uint8''] self)
     else seq (np_call L ''lookup_reshape'' [Obj center, Obj label, Obj (shp s)]) (\<lambda>r.
          np_assign L ''astype'' [Obj r, Str ''uint8''] self))))))))))"

section \<open>CircleMixin\<close>

definition get_circle :: "lib \<Rightarrow> int \<Rightarrow> int \<Rightarrow> real \<Rightarrow> nat \<Rightarrow> val m" where
  "get_circle L min_r max_r dv self =
     seq (dim self) (\<lambda>n.
     if n \<noteq> 2 then raise (ValueError ''Circle only on 2D images'')
     else
       seq (deepcopy L self) (\<lambda>thumbnail.
       seq (if dv = 0 then raise ZeroDivisionError
            else resize L ''ratio'' (1 / dv) (Str ''INTER_AREA'') thumbnail) (\<lambda>u.
       seq (data_val thumbnail) (\<lambda>d.
       seq (cv_call L ''HoughCircles''
              [Obj d, Str ''HOUGH_GRADIENT'', Obj (VInt 1), Obj (VInt 20), Obj (VInt 20), Obj (VInt 20),
               Obj (VInt (py_int (of_int min_r / dv))), Obj (VInt (py_int (of_int max_r / dv)))]) (\<lambda>c.
       seq (np_call L ''circle_center'' [Obj c, Obj (VReal dv)]) (\<lambda>ctr.
       seq (np_call L ''circle_radius'' [Obj c, Obj (VReal dv)]) (\<lambda>rad.
       ok (VTuple [ctr, rad]))))))))"

datatype ratio = Square | Ratio real

definition crop_at_circle :: "lib \<Rightarrow> real list \<Rightarrow> real \<Rightarrow> ratio \<Rightarrow> nat \<Rightarrow> val m" where
  "crop_at_circle L center radius ratio self =
     (let r = (case ratio of Square \<Rightarrow> 1 | Ratio x \<Rightarrow> x) in
      if length center \<noteq> 2 then raise (ValueError ''center variable must be of length 2'')
      else if radius > 0 then raise (ValueError ''radius must be positive'')
      else if r > 0 then raise (ValueError ''ratio must be positive'')
      else
        let L1 = radius / sqrt (r * r + 1);
            L2 = L1 * r;
            tlp = [py_int (center ! 1 - L1), py_int (center ! 0 - L2)];
            brp = [py_int (center ! 1 + L1), py_int (center ! 0 + L2)]
        in crop L tlp brp True self)"

definition ring :: "lib \<Rightarrow> int list \<Rightarrow> int list \<Rightarrow> nat \<Rightarrow> val m" where
  "ring L center radii self =
     (if length center \<noteq> 2 then raise (ValueError ''center requires 2 coordinates'')
      else if length center \<noteq> 2 then raise (ValueError ''radi requires 2 values'')
      else
        seq (py_max radii) (\<lambda>hi.
        seq (shape self) (\<lambda>s.
        seq (py_min (map int (take 2 s))) (\<lambda>side.
        if hi \<ge> side div 2 then raise (ValueError ''radiis have to be < radius'')
        else
          seq (py_min radii) (\<lambda>lo.
          if lo \<le> 0 then raise (ValueError ''radiis have to be > 0'')
          else
            let precision_position = real_of_int (sum_list radii) / 2 in
            seq (if precision_position = 0 then raise ZeroDivisionError
                 else if 1 < \<bar>1 / precision_position\<bar> then raise (BuiltinError ''math domain error'')
                 else ok (arcsin (1 / precision_position))) (\<lambda>step.
            seq (np_call L ''arange'' [Obj VNone, Obj (VReal (2 * pi)), Obj (VReal step)]) (\<lambda>angle_vec.
            seq (np_call L ''arange'' [Obj (VInt hi), Obj (VInt lo), Obj (VInt (- 1))]) (\<lambda>radii_vec.
            seq (np_call L ''cos'' [Obj angle_vec]) (\<lambda>cs.
            seq (np_call L ''outer'' [Obj cs, Obj radii_vec]) (\<lambda>oc.
            seq (np_call L ''rsub_uint16'' [Obj (VInt (center ! 0)), Obj oc]) (\<lambda>coses.
            seq (np_call L ''sin'' [Obj angle_vec]) (\<lambda>sn.
            seq (np_call L ''outer'' [Obj sn, Obj radii_vec]) (\<lambda>os.
            seq (np_call L ''rsub_uint16'' [Obj (VInt (center ! 1)), Obj os]) (\<lambda>sines.
            seq (data_val self) (\<lambda>d.
            seq (np_call L ''getitem'' [Obj d, Obj coses, Obj sines]) (\<lambda>picked.
            np_assign L ''transpose'' [Obj picked, Obj (VTuple [VInt 1, VInt 0, VInt 2])] self))))))))))))))))"

definition as_int :: "val \<Rightarrow> int m" where
  "as_int v = (case v of VInt k \<Rightarrow> ok k | other \<Rightarrow> raise (BuiltinError ''not an integer''))"

fun filter_loop :: "lib \<Rightarrow> val \<Rightarrow> val \<Rightarrow> (int \<Rightarrow> bool) \<Rightarrow> int list \<Rightarrow> val \<Rightarrow> val m" where
  "filter_loop L labels stat_col drop_it [] concat0 = ok concat0"
| "filter_loop L labels stat_col drop_it (i # rest) concat0 =
     seq (np_call L ''getitem'' [Obj stat_col, Obj (VInt i)]) (\<lambda>mv.
     seq (as_int mv) (\<lambda>m.
     seq (if drop_it m then np_call L ''zero_where_equal'' [Obj concat0, Obj labels, Obj (VInt (i + 1))]
          else ok concat0) (\<lambda>concat1.
     filter_loop L labels stat_col drop_it rest concat1)))"

definition filter_components ::
  "lib \<Rightarrow> val \<Rightarrow> string \<Rightarrow> (int \<Rightarrow> bool) \<Rightarrow> int \<times> int \<times> int \<Rightarrow> nat \<Rightarrow> val m" where
  "filter_components L concat0 stat drop_it part self =
     seq (cv_call L ''connectedComponentsWithStats'' [Obj concat0, Obj (VInt 8)]) (\<lambda>res.
     seq (py_getitem res 0) (\<lambda>nbv. seq (as_int nbv) (\<lambda>nb.
     seq (py_getitem res 1) (\<lambda>labels.
     seq (py_getitem res 2) (\<lambda>stats.
     seq (np_call L ''getitem'' [Obj stats, Str ''1:'', Str stat]) (\<lambda>stat_col.
     seq (py_range 0 (nb - 1) 1) (\<lambda>is.
     seq (filter_loop L labels stat_col drop_it is concat0) (\<lambda>concat1.
     seq (ndarray_attr concat1 ''shape'') (\<lambda>shp.
     seq (py_getitem shp 1) (\<lambda>wv. seq (as_int wv) (\<lambda>cw.
     case part of (lo, hi, den) \<Rightarrow>
       np_assign L ''getitem''
         [Obj concat1, Str '':'', Obj (VInt (lo * cw div den)), Obj (VInt (hi * cw div den))] self)))))))))))"

definition filter_objects :: "lib \<Rightarrow> int \<Rightarrow> int \<Rightarrow> nat \<Rightarrow> val m" where
  "filter_objects L min_size max_size self =
     seq (data_val self) (\<lambda>d.
     seq (width self) (\<lambda>w.
     seq (np_call L ''getitem'' [Obj d, Str '':'', Obj (VInt (int w div 2)), Obj VNone]) (\<lambda>right.
     seq (np_call L ''getitem'' [Obj d, Str '':'', Obj VNone, Obj (VInt (int w div 2))]) (\<lambda>left.
     seq (np_call L ''hstack'' [Obj right, Obj d, Obj left]) (\<lambda>concat0.
     filter_components L concat0 ''CC_STAT_AREA''
       (\<lambda>sz. sz < min_size \<or> (max_size \<noteq> - 1 \<and> sz > max_size)) (1, 3, 4) self)))))"

definition filter_border2border :: "lib \<Rightarrow> real \<Rightarrow> nat \<Rightarrow> val m" where
  "filter_border2border L coef self =
     seq (data_val self) (\<lambda>d.
     seq (np_call L ''hstack'' [Obj d, Obj d, Obj d]) (\<lambda>concat0.
     seq (height self) (\<lambda>h.
     filter_components L concat0 ''CC_STAT_HEIGHT''
       (\<lambda>ht. of_int ht < real h * coef) (1, 2, 3) self)))"

definition get_corners :: "nat \<Rightarrow> val m" where
  "get_corners self =
     seq (height self) (\<lambda>h. seq (width self) (\<lambda>w.
     ok (VArr \<lparr>nd_shape = [4, 2],
               nd_body = Ar [Ar [Sc 0, Sc 0], Ar [Sc 0, Sc (int h)],
                             Ar [Sc (int w), Sc (int h)], Ar [Sc (int w), Sc 0]]\<rparr>)))"

definition attr_data :: "val \<Rightarrow> val m" where
  "attr_data v = (case v of VImg i \<Rightarrow> data_val i | other \<Rightarrow> raise (AttributeError ''data''))"

fun warp_loop :: "lib \<Rightarrow> val \<Rightarrow> nat \<Rightarrow> int list \<Rightarrow> val list \<Rightarrow> val list m" where
  "warp_loop L M self [] channels = ok channels"
| "warp_loop L M self (idx # rest) channels =
     seq (channel L idx self) (\<lambda>ch.
     seq (attr_data ch) (\<lambda>d.
     seq (width self) (\<lambda>w. seq (height self) (\<lambda>h.
     seq (cv_call L ''warpPerspective'' [Obj d, Obj M, Obj (VTuple [VInt (int w), VInt (int h)])]) (\<lambda>arr.
     warp_loop L M self rest (channels @ [arr]))))))"

definition warp :: "lib \<Rightarrow> ndarray \<Rightarrow> ndarray \<Rightarrow> nat \<Rightarrow> val m" where
  "warp L src dst self =
     (if nd_shape src = [4, 2] then raise (ValueError ''src list needs to be 4x2'')
      else if nd_shape dst = [4, 2] then raise (ValueError ''dst list needs to be 4x2'')
      else
        seq (cv_call L ''getPerspectiveTransform'' [Obj (VArr src), Obj (VArr dst)]) (\<lambda>M.
        seq (shape self) (\<lambda>s.
        let max_range = (if length s = 3 then int (s ! 2) else 1) in
        seq (py_range 0 max_range 1) (\<lambda>idxs.
        seq (warp_loop L M self idxs []) (\<lambda>channels.
        seq (np_call L ''stack'' [Obj (VTuple channels)]) (\<lambda>arr.
        seq (np_call L ''swapaxes'' [Obj arr, Obj (VInt 0), Obj (VInt 2)]) (\<lambda>arr1.
        np_assign L ''swapaxes'' [Obj arr1, Obj (VInt 0), Obj (VInt 1)] self)))))))"

section \<open>OutputMixin\<close>

definition show_img :: "lib \<Rightarrow> string \<Rightarrow> int \<Rightarrow> int \<Rightarrow> nat \<Rightarrow> val m" where
  "show_img L label disp_height disp_width self =
     seq (deepcopy L self) (\<lambda>display.
     seq (if disp_height \<noteq> 0
            then resize L ''height'' (of_int disp_height) (Str ''INTER_AREA'') display
          else if disp_width \<noteq> 0
            then resize L ''width'' (of_int disp_width) (Str ''INTER_AREA'') display
          else ok VNone) (\<lambda>u.
     seq (data_val display) (\<lambda>d.
     seq (cv_call L ''imshow'' [Str label, Obj d]) (\<lambda>u.
     seq (cv_call L ''waitKey'' [Obj (VInt 0)]) (\<lambda>u. ok VNone)))))"

text \<open>\<open>Path(folder).mkdir(parents=True, exist_ok=True)\<close>: the folder and every ancestor
  named in it exist afterwards.\<close>

definition ancestors :: "string \<Rightarrow> string list" where
  "ancestors folder =
     (let comps = py_split CHR ''/'' folder
      in filter (\<lambda>p. p \<noteq> []) (map (\<lambda>k. py_join ''/'' (take (Suc k) comps)) [0 ..< length comps]))"

definition mkdir_parents :: "string \<Rightarrow> unit m" where
  "mkdir_parents folder \<sigma> =
     (Inr (), \<sigma>\<lparr>effects := effects \<sigma> @ [Mkdir folder], paths := paths \<sigma> @ ancestors folder\<rparr>)"

definition destination_folder :: "string \<Rightarrow> string" where
  "destination_folder path =
     (let substrings = py_split CHR ''/'' (py_replace (CHR 0x5C) CHR ''/'' path)
      in py_join ''/'' (py_slice 0 (- 1) substrings))"

definition save :: "lib \<Rightarrow> string \<Rightarrow> nat \<Rightarrow> val m" where
  "save L path self =
     (if last (py_split CHR ''.'' path) \<notin> set [''jpg'', ''jpeg'', ''png'']
        then raise (ValueError ''Unrecognised image file type'')
      else
        let folder = destination_folder path in
        seq (if folder \<noteq> []
             then seq (path_exists folder) (\<lambda>found.
                  if \<not> found then mkdir_parents folder else ok ())
             else ok ()) (\<lambda>u.
        seq (data_val self) (\<lambda>d.
        seq (cv_call L ''imwrite'' [Str path, Obj d]) (\<lambda>u. ok VNone))))"

section \<open>ToClassifyMixin\<close>

definition integral :: "lib \<Rightarrow> nat \<Rightarrow> val m" where
  "integral L self =
     seq (dim self) (\<lambda>n.
     seq (if n = 3 then BGR_to_GRAY L self else ok VNone) (\<lambda>u.
     seq (data_val self) (\<lambda>d.
     seq (np_call L ''astype'' [Obj d, Str ''float32'']) (\<lambda>f.
     seq (np_assign L ''div'' [Obj f, Obj (VReal 255)] self) (\<lambda>u.
     seq (data_val self) (\<lambda>scaled.
     cv_assign L ''integral'' [Obj scaled] self))))))"

definition getitem_cols :: "val \<Rightarrow> int list \<Rightarrow> val m" where
  "getitem_cols v idx =
     (case v of
        VArr a \<Rightarrow> (case take_axis1 a idx of Inl e \<Rightarrow> raise e | Inr b \<Rightarrow> ok (VArr b))
      | other \<Rightarrow> raise (BuiltinError ''object is not subscriptable''))"

definition getitem_rows :: "val \<Rightarrow> int list \<Rightarrow> val m" where
  "getitem_rows v idx =
     (case v of
        VArr a \<Rightarrow> (case take_axis0 a idx of Inl e \<Rightarrow> raise e | Inr b \<Rightarrow> ok (VArr b))
      | other \<Rightarrow> raise (BuiltinError ''object is not subscriptable''))"

text \<open>\<open>(np.arange(n) + offset) % n\<close>. \<open>np.arange(n)\<close> is an array of 64-bit integers: numpy
  refuses a Python integer that does not fit in 64 bits, and adds one that fits without an
  overflow check, so the sum wraps around. \<open>rotated_indexes\<close> is the list this gives as
  long as no sum leaves the 64-bit range.\<close>

definition int64_add :: "int \<Rightarrow> int \<Rightarrow> int" where
  "int64_add x y = (x + y + 2 ^ 63) mod 2 ^ 64 - 2 ^ 63"

definition shifted_indexes :: "nat \<Rightarrow> int \<Rightarrow> int list m" where
  "shifted_indexes n offset =
     (if offset < - (2 ^ 63) \<or> 2 ^ 63 \<le> offset then raise LibError
      else ok (map (\<lambda>j. int64_add (int j) offset mod int n) [0 ..< n]))"

definition rotated_indexes :: "nat \<Rightarrow> int \<Rightarrow> int list" where
  "rotated_indexes n offset = map (\<lambda>j. (int j + offset) mod int n) [0 ..< n]"

definition vertical_shift :: "int \<Rightarrow> nat \<Rightarrow> val m" where
  "vertical_shift offset self =
     seq (width self) (\<lambda>w.
     seq (shifted_indexes w offset) (\<lambda>new_indexes.
     seq (dim self) (\<lambda>n.
     if n = 3 then seq (data_val self) (\<lambda>d.
                   seq (getitem_cols d new_indexes) (\<lambda>r. assign self r))
     else if n = 2 then seq (data_val self) (\<lambda>d.
                        seq (getitem_cols d new_indexes) (\<lambda>r. assign self r))
     else ok VNone)))"

definition horizontal_shift :: "int \<Rightarrow> nat \<Rightarrow> val m" where
  "horizontal_shift offset self =
     seq (height self) (\<lambda>h.
     seq (shifted_indexes h offset) (\<lambda>new_indexes.
     seq (dim self) (\<lambda>n.
     if n = 3 then seq (data_val self) (\<lambda>d.
                   seq (getitem_rows d new_indexes) (\<lambda>r. assign self r))
     else if n = 2 then seq (data_val self) (\<lambda>d.
                        seq (getitem_rows d new_indexes) (\<lambda>r. assign self r))
     else ok VNone)))"

section \<open>Image: channels, blend\<close>

fun images_of_list :: "lib \<Rightarrow> val list \<Rightarrow> val list m" where
  "images_of_list L [] = ok []"
| "images_of_list L (c # cs) =
     seq (Image_of L c) (\<lambda>i.
     seq (images_of_list L cs) (\<lambda>rest. ok (VImg i # rest)))"

definition channels :: "lib \<Rightarrow> nat \<Rightarrow> val m" where
  "channels L self =
     seq (data_val self) (\<lambda>d.
     seq (cv_call L ''split'' [Obj d]) (\<lambda>chans.
     case chans of
       VTuple cs \<Rightarrow> seq (images_of_list L cs) (\<lambda>imgs. ok (VTuple imgs))
     | other \<Rightarrow> raise (BuiltinError ''object is not iterable'')))"

definition blend :: "lib \<Rightarrow> val \<Rightarrow> real \<Rightarrow> nat \<Rightarrow> val m" where
  "blend L other alpha self =
     (case other of
        VImg other_img \<Rightarrow>
          if alpha < 0 \<or> alpha > 1 then raise (ValueError ''Alpha must be in [0, 1]'')
          else
            seq (deepcopy L self) (\<lambda>img1.
            seq (deepcopy L other_img) (\<lambda>img2.
            seq (to_BGR L img1) (\<lambda>u.
            seq (to_BGR L img2) (\<lambda>u.
            seq (data_val img1) (\<lambda>d1.
            seq (data_val img2) (\<lambda>d2.
            cv_assign L ''addWeighted'' [Obj d1, Obj (VReal (1 - alpha)), Obj d2, Obj (VReal alpha), Obj (VReal 0)] self))))))
      | not_image \<Rightarrow> raise (TypeError ''Wrong input image type''))"

section \<open>The public operations\<close>

datatype call =
    Blend val real
  | Crop "int list" "int list" bool
  | Crop2 "int list" int int bool
  | Deepcopy
  | Channels
  | Channel int
  | Split string position
  | Negate
  | Blur int string
  | GaussianBlur int real
  | Resize string real arg
  | FullResize "int list" arg
  | Rotate90
  | Rotate real "int list"
  | EqualizeHist real
  | DistanceTransform
  | AdaptiveThreshold int int int
  | Binarize int
  | Sharpen
  | Open val val
  | Close val val
  | Dilate val val
  | Erode val val
  | Tophat int val
  | AlgebricOpen int int
  | AlgebricDilate int int
  | Blackhat int val
  | Gabor
  | Edges int int
  | Sobel
  | GetCircle int int real
  | CropAtCircle "real list" real ratio
  | Ring "int list" "int list"
  | FilterObjects int int
  | FilterBorder2border real
  | GetCorners
  | Warp ndarray ndarray
  | BgrToLab | LabToBgr | BgrToHsv | HsvToBgr | BgrToGray
  | ToBGR | ToGRAY | To8UC1 | To16UC1
  | Kmeans int int real bool
  | Show string int int
  | Save string
  | Integral
  | VerticalShift int
  | HorizontalShift int

fun run :: "lib \<Rightarrow> call \<Rightarrow> nat \<Rightarrow> val m" where
  "run L (Blend other alpha) self = blend L other alpha self"
| "run L (Crop tlp brp inplace) self = crop L tlp brp inplace self"
| "run L (Crop2 tlp h w inplace) self = crop2 L tlp h w inplace self"
| "run L Deepcopy self = seq (deepcopy L self) (\<lambda>i. ok (VImg i))"
| "run L Channels self = channels L self"
| "run L (Channel c) self = channel L c self"
| "run L (Split direction position) self = split L direction position self"
| "run L Negate self = negate L self"
| "run L (Blur ksize method) self = blur L ksize method self"
| "run L (GaussianBlur ksize sigma) self = gaussian_blur L ksize sigma self"
| "run L (Resize param value interp) self = resize L param value interp self"
| "run L (FullResize dims interp) self = full_resize L dims interp self"
| "run L Rotate90 self = rotate90 L self"
| "run L (Rotate angle center) self = rotate_img L angle center self"
| "run L (EqualizeHist rate) self = equalize_hist L rate self"
| "run L DistanceTransform self = distance_transform L self"
| "run L (AdaptiveThreshold blursize blocksize c) self = adaptive_threshold L blursize blocksize c self"
| "run L (Binarize threshold) self = binarize L threshold self"
| "run L Sharpen self = sharpen L self"
| "run L (Open ksize element) self = open_img L ksize element self"
| "run L (Close ksize element) self = close_img L ksize element self"
| "run L (Dilate ksize element) self = dilate L ksize element self"
| "run L (Erode ksize element) self = erode L ksize element self"
| "run L (Tophat ksize element) self = tophat L ksize element self"
| "run L (AlgebricOpen ksize step) self = algebric_open L ksize step self"
| "run L (AlgebricDilate ksize step) self = algebric_dilate L ksize step self"
| "run L (Blackhat ksize element) self = blackhat L ksize element self"
| "run L Gabor self = gabor L self"
| "run L (Edges thres1 thres2) self = edges L thres1 thres2 self"
| "run L Sobel self = sobel L self"
| "run L (GetCircle min_r max_r dv) self = get_circle L min_r max_r dv self"
| "run L (CropAtCircle center radius ratio) self = crop_at_circle L center radius ratio self"
| "run L (Ring center radii) self = ring L center radii self"
| "run L (FilterObjects min_size max_size) self = filter_objects L min_size max_size self"
| "run L (FilterBorder2border coef) self = filter_border2border L coef self"
| "run L GetCorners self = get_corners self"
| "run L (Warp src dst) self = warp L src dst self"
| "run L BgrToLab self = BGR_to_LAB L self"
| "run L LabToBgr self = LAB_to_BGR L self"
| "run L BgrToHsv self = BGR_to_HSV L self"
| "run L HsvToBgr self = HSV_to_BGR L self"
| "run L BgrToGray self = BGR_to_GRAY L self"
| "run L ToBGR self = to_BGR L self"
| "run L ToGRAY self = to_GRAY L self"
| "run L To8UC1 self = to_8UC1 L self"
| "run L To16UC1 self = to_16UC1 L self"
| "run L (Kmeans K maxiter epsilon equalize) self = kmeans L K maxiter epsilon equalize self"
| "run L (Show label disp_height disp_width) self = show_img L label disp_height disp_width self"
| "run L (Save path) self = save L path self"
| "run L Integral self = integral L self"
| "run L (VerticalShift offset) self = vertical_shift offset self"
| "run L (HorizontalShift offset) self = horizontal_shift offset self"

section \<open>Predicates on computations\<close>

text \<open>
  \<open>grows \<sigma> \<sigma>'\<close>: every object and every \<open>Image\<close> of \<open>\<sigma>\<close> is in \<open>\<sigma>'\<close> as it was, nothing was
  logged and the disk is the same; \<open>\<sigma>'\<close> may hold new objects. A computation is
  \<open>pure_alloc\<close> when that is all it ever does, \<open>no_val_err\<close> when it never ends in one of
  the package's validation errors, and \<open>quiet\<close> when a validation error finds the world
  grown only.
\<close>

definition grows :: "world \<Rightarrow> world \<Rightarrow> bool" where
  "grows \<sigma> \<sigma>' = (prefix (objects \<sigma>) (objects \<sigma>') \<and> prefix (images \<sigma>) (images \<sigma>')
      \<and> effects \<sigma>' = effects \<sigma> \<and> paths \<sigma>' = paths \<sigma>)"

definition pure_alloc :: "'a m \<Rightarrow> bool" where
  "pure_alloc m = (\<forall>\<sigma>. grows \<sigma> (snd (m \<sigma>)))"

definition no_val_err :: "'a m \<Rightarrow> bool" where
  "no_val_err m = (\<forall>\<sigma> e. fst (m \<sigma>) = Inl e \<longrightarrow> \<not> is_validation e)"

definition quiet :: "'a m \<Rightarrow> bool" where
  "quiet m = (\<forall>\<sigma> e. fst (m \<sigma>) = Inl e \<longrightarrow> is_validation e \<longrightarrow> grows \<sigma> (snd (m \<sigma>)))"

text \<open>\<open>keeps p \<sigma> \<sigma>'\<close>: the \<open>Image\<close> object \<open>p\<close> is bound to the same address and no object of
  \<open>\<sigma>\<close> was written to.\<close>

definition keeps :: "nat \<Rightarrow> world \<Rightarrow> world \<Rightarrow> bool" where
  "keeps p \<sigma> \<sigma>' = (prefix (objects \<sigma>) (objects \<sigma>') \<and> length (images \<sigma>) \<le> length (images \<sigma>')
      \<and> images \<sigma>' ! p = images \<sigma> ! p)"

definition preserves :: "nat \<Rightarrow> 'a m \<Rightarrow> bool" where
  "preserves p m = (\<forall>\<sigma>. p < length (images \<sigma>) \<longrightarrow> keeps p \<sigma> (snd (m \<sigma>)))"

text \<open>What the model asks of the library: \<open>cv.split\<close> returns a sequence of arrays.\<close>

definition split_gives_arrays :: "lib \<Rightarrow> bool" where
  "split_gives_arrays L =
     (\<forall>args v. L ''split'' args = Some v \<longrightarrow> (\<exists>arrs. v = VTuple (map VArr arrs)))"

text \<open>A handle is valid in a world when it names an \<open>Image\<close> object whose \<open>data\<close> is the
  address of an object.\<close>

definition valid :: "nat \<Rightarrow> world \<Rightarrow> bool" where
  "valid self \<sigma> = (self < length (images \<sigma>) \<and> images \<sigma> ! self < length (objects \<sigma>))"

text \<open>A small world for the concrete instances: one 2 x 3 image, and a library whose
  primitives hand back their first argument when it is an object and \<open>None\<close> otherwise
  (\<open>split\<close>: the array as its only channel).\<close>

definition demo_array :: ndarray where
  "demo_array = \<lparr>nd_shape = [2, 3],
                 nd_body = Ar [Ar [Sc 1, Sc 2, Sc 3], Ar [Sc 4, Sc 5, Sc 6]]\<rparr>"

definition demo_world :: world where
  "demo_world = \<lparr>objects = [VArr demo_array], images = [0], effects = [], paths = []\<rparr>"

definition demo_lib :: lib where
  "demo_lib name args =
     (if name = ''split''
      then (case args of [Obj (VArr a)] \<Rightarrow> Some (VTuple [VArr a]) | other \<Rightarrow> None)
      else (case args of Obj v # rest \<Rightarrow> Some v | other \<Rightarrow> Some VNone))"

definition demo_vector :: ndarray where
  "demo_vector = \<lparr>nd_shape = [3], nd_body = Ar [Sc 7, Sc 8, Sc 9]\<rparr>"

definition vector_world :: world where
  "vector_world = \<lparr>objects = [VArr demo_vector], images = [], effects = [], paths = []\<rparr>"

section \<open>Rules for the predicates\<close>


lemma grows_refl: "grows \<sigma> \<sigma>"
  by (simp add: grows_def)

lemma grows_trans: "grows a b \<Longrightarrow> grows b c \<Longrightarrow> grows a c"
  by (auto simp: grows_def)

named_theorems pa
named_theorems nv
named_theorems qu

lemma pure_quiet: "pure_alloc m \<Longrightarrow> quiet m"
  by (simp add: pure_alloc_def quiet_def)

lemma nv_quiet: "no_val_err m \<Longrightarrow> quiet m"
  by (auto simp: no_val_err_def quiet_def)

lemma pa_ok [pa]: "pure_alloc (ok x)"
  by (simp add: pure_alloc_def ok_def grows_refl)

lemma pa_raise [pa]: "pure_alloc (raise e)"
  by (simp add: pure_alloc_def raise_def grows_refl)

lemma pa_seq [pa]: "pure_alloc m \<Longrightarrow> (\<And>x. pure_alloc (f x)) \<Longrightarrow> pure_alloc (seq m f)"
  unfolding pure_alloc_def seq_def
proof (intro allI)
  fix \<sigma>
  assume m: "\<forall>\<sigma>. grows \<sigma> (snd (m \<sigma>))" and f: "\<And>x. \<forall>\<sigma>. grows \<sigma> (snd (f x \<sigma>))"
  show "grows \<sigma> (snd (case m \<sigma> of (Inl e, \<sigma>') \<Rightarrow> (Inl e, \<sigma>') | (Inr x, \<sigma>') \<Rightarrow> f x \<sigma>'))"
  proof (cases "m \<sigma>")
    case (Pair r \<sigma>1)
    with m have g1: "grows \<sigma> \<sigma>1" by (metis snd_conv)
    show ?thesis
    proof (cases r)
      case (Inl e)
      with Pair g1 show ?thesis by simp
    next
      case (Inr x)
      with Pair g1 f[of x] show ?thesis by (auto intro: grows_trans)
    qed
  qed
qed

lemma pa_if [pa]: "(c \<Longrightarrow> pure_alloc a) \<Longrightarrow> (\<not> c \<Longrightarrow> pure_alloc b) \<Longrightarrow> pure_alloc (if c then a else b)"
  by simp

lemma nv_ok [nv]: "no_val_err (ok x)"
  by (simp add: no_val_err_def ok_def)

lemma nv_seq [nv]: "no_val_err m \<Longrightarrow> (\<And>x. no_val_err (f x)) \<Longrightarrow> no_val_err (seq m f)"
  unfolding no_val_err_def seq_def
  by (auto split: prod.splits sum.splits) (metis fst_conv)+

lemma nv_if [nv]: "(c \<Longrightarrow> no_val_err a) \<Longrightarrow> (\<not> c \<Longrightarrow> no_val_err b) \<Longrightarrow> no_val_err (if c then a else b)"
  by simp

lemma nv_raise: "\<not> is_validation e \<Longrightarrow> no_val_err (raise e)"
  by (simp add: no_val_err_def raise_def)

lemma qu_if [qu]: "(c \<Longrightarrow> quiet a) \<Longrightarrow> (\<not> c \<Longrightarrow> quiet b) \<Longrightarrow> quiet (if c then a else b)"
  by simp

lemma qu_seq_pure: "pure_alloc m \<Longrightarrow> (\<And>x. quiet (f x)) \<Longrightarrow> quiet (seq m f)"
  unfolding quiet_def pure_alloc_def seq_def
proof (intro allI impI)
  fix \<sigma> e
  assume m: "\<forall>\<sigma>. grows \<sigma> (snd (m \<sigma>))"
    and f: "\<And>x. \<forall>\<sigma> e. fst (f x \<sigma>) = Inl e \<longrightarrow> is_validation e \<longrightarrow> grows \<sigma> (snd (f x \<sigma>))"
    and err: "fst (case m \<sigma> of (Inl e, \<sigma>') \<Rightarrow> (Inl e, \<sigma>') | (Inr x, \<sigma>') \<Rightarrow> f x \<sigma>') = Inl e"
    and v: "is_validation e"
  show "grows \<sigma> (snd (case m \<sigma> of (Inl e, \<sigma>') \<Rightarrow> (Inl e, \<sigma>') | (Inr x, \<sigma>') \<Rightarrow> f x \<sigma>'))"
  proof (cases "m \<sigma>")
    case (Pair r \<sigma>1)
    with m have g1: "grows \<sigma> \<sigma>1" by (metis snd_conv)
    show ?thesis
    proof (cases r)
      case (Inl e')
      with Pair g1 show ?thesis by simp
    next
      case (Inr x)
      with Pair err have "fst (f x \<sigma>1) = Inl e" by simp
      with f[of x] v have "grows \<sigma>1 (snd (f x \<sigma>1))" by blast
      with Pair Inr g1 show ?thesis by (auto intro: grows_trans)
    qed
  qed
qed

lemma qu_seq_tail: "quiet m \<Longrightarrow> (\<And>x. no_val_err (f x)) \<Longrightarrow> quiet (seq m f)"
  unfolding quiet_def no_val_err_def seq_def
proof (intro allI impI)
  fix \<sigma> e
  assume m: "\<forall>\<sigma> e. fst (m \<sigma>) = Inl e \<longrightarrow> is_validation e \<longrightarrow> grows \<sigma> (snd (m \<sigma>))"
    and f: "\<And>x. \<forall>\<sigma> e. fst (f x \<sigma>) = Inl e \<longrightarrow> \<not> is_validation e"
    and err: "fst (case m \<sigma> of (Inl e, \<sigma>') \<Rightarrow> (Inl e, \<sigma>') | (Inr x, \<sigma>') \<Rightarrow> f x \<sigma>') = Inl e"
    and v: "is_validation e"
  show "grows \<sigma> (snd (case m \<sigma> of (Inl e, \<sigma>') \<Rightarrow> (Inl e, \<sigma>') | (Inr x, \<sigma>') \<Rightarrow> f x \<sigma>'))"
  proof (cases "m \<sigma>")
    case (Pair r \<sigma>1)
    show ?thesis
    proof (cases r)
      case (Inl e')
      with Pair err have "e' = e" by simp
      with Pair Inl m v have "grows \<sigma> \<sigma>1" by (metis fst_conv snd_conv)
      with Pair Inl show ?thesis by simp
    next
      case (Inr x)
      with Pair err have "fst (f x \<sigma>1) = Inl e" by simp
      with f[of x] v show ?thesis by blast
    qed
  qed
qed

lemma qu_raise [qu]: "quiet (raise e)"
  by (simp add: pure_quiet pa_raise)

lemma qu_ok [qu]: "quiet (ok x)"
  by (simp add: pure_quiet pa_ok)

lemma nv_raise_rt [nv]:
  "no_val_err (raise IndexError)" "no_val_err (raise (AttributeError s))"
  "no_val_err (raise ZeroDivisionError)" "no_val_err (raise (BuiltinError s))"
  "no_val_err (raise LibError)"
  by (simp_all add: nv_raise)

lemma pa_case_prod [pa]: "(\<And>a b. pure_alloc (f a b)) \<Longrightarrow> pure_alloc (case_prod f p)"
  by (cases p) simp
lemma nv_case_prod [nv]: "(\<And>a b. no_val_err (f a b)) \<Longrightarrow> no_val_err (case_prod f p)"
  by (cases p) simp
lemma qu_case_prod [qu]: "(\<And>a b. quiet (f a b)) \<Longrightarrow> quiet (case_prod f p)"
  by (cases p) simp

lemma pa_prims [pa]:
  "pure_alloc (get_data self)" "pure_alloc (deref a)" "pure_alloc (new_object v)"
  "pure_alloc (new_image a)" "pure_alloc (path_exists p)" "pure_alloc (np_call L name args)"
  by (auto simp: pure_alloc_def grows_def get_data_def deref_def new_object_def new_image_def
      path_exists_def np_call_def split: option.splits)

lemma nv_prims [nv]:
  "no_val_err (get_data self)" "no_val_err (deref a)" "no_val_err (new_object v)"
  "no_val_err (new_image a)" "no_val_err (path_exists p)" "no_val_err (np_call L name args)"
  "no_val_err (cv_call L name args)" "no_val_err (set_data self a)" "no_val_err (overwrite a v)"
  "no_val_err (mkdir_parents folder)"
  by (auto simp: no_val_err_def get_data_def deref_def new_object_def new_image_def
      path_exists_def np_call_def cv_call_def set_data_def overwrite_def mkdir_parents_def Let_def
      split: option.splits)

lemma pa_item [pa]: "pure_alloc (item xs i)"
  by (simp add: item_def pa)
lemma nv_item [nv]: "no_val_err (item xs i)"
  by (simp add: item_def nv)

lemma pa_py_or [pa]: "pure_alloc p \<Longrightarrow> pure_alloc q \<Longrightarrow> pure_alloc (py_or p q)"
  unfolding py_or_def by (intro pa)
lemma nv_py_or [nv]: "no_val_err p \<Longrightarrow> no_val_err q \<Longrightarrow> no_val_err (py_or p q)"
  unfolding py_or_def by (intro nv)

lemma pa_data_val [pa]: "pure_alloc (data_val self)"
  unfolding data_val_def by (intro pa)
lemma nv_data_val [nv]: "no_val_err (data_val self)"
  unfolding data_val_def by (intro nv)

lemma nv_assign [nv]: "no_val_err (assign self v)"
  unfolding assign_def by (intro nv)
lemma nv_cv_assign [nv]: "no_val_err (cv_assign L name args self)"
  unfolding cv_assign_def by (intro nv)
lemma nv_np_assign [nv]: "no_val_err (np_assign L name args self)"
  unfolding np_assign_def by (intro nv)

lemma pa_shape [pa]: "pure_alloc (shape self)"
  unfolding shape_def by (intro pa) (simp add: pa split: val.splits)
lemma nv_shape [nv]: "no_val_err (shape self)"
  unfolding shape_def by (intro nv) (simp add: nv split: val.splits)

lemma pa_props [pa]: "pure_alloc (width self)" "pure_alloc (height self)" "pure_alloc (dim self)"
  unfolding width_def height_def dim_def by (intro pa)+
lemma nv_props [nv]: "no_val_err (width self)" "no_val_err (height self)" "no_val_err (dim self)"
  unfolding width_def height_def dim_def by (intro nv)+

lemma pa_builtins [pa]:
  "pure_alloc (py_getitem v i)" "pure_alloc (py_range a b c)" "pure_alloc (py_max xs)"
  "pure_alloc (py_min xs)" "pure_alloc (as_int v)" "pure_alloc (py_unpack2 v)"
  "pure_alloc (ndarray_attr v name)" "pure_alloc (np_zeros_of dims)"
  "pure_alloc (getitem_slices v r c')" "pure_alloc (getitem_cols v idx)"
  "pure_alloc (getitem_rows v idx)"
  by (simp_all add: py_getitem_def py_range_def py_max_def py_min_def as_int_def py_unpack2_def
      ndarray_attr_def np_zeros_of_def getitem_slices_def getitem_cols_def getitem_rows_def pa
      split: val.splits option.splits list.splits sum.splits)

lemma nv_builtins [nv]:
  "no_val_err (py_getitem v i)" "no_val_err (py_range a b c)" "no_val_err (py_max xs)"
  "no_val_err (py_min xs)" "no_val_err (as_int v)" "no_val_err (py_unpack2 v)"
  "no_val_err (ndarray_attr v name)" "no_val_err (np_zeros_of dims)"
  by (simp_all add: py_getitem_def py_range_def py_max_def py_min_def as_int_def py_unpack2_def
      ndarray_attr_def np_zeros_of_def nv
      split: val.splits option.splits list.splits sum.splits)

lemma pa_shifted_indexes [pa]: "pure_alloc (shifted_indexes n offset)"
  by (simp add: shifted_indexes_def pa)

lemma nv_shifted_indexes [nv]: "no_val_err (shifted_indexes n offset)"
  by (simp add: shifted_indexes_def nv)

lemma slice2_err: "slice2 a r c = Inl e \<Longrightarrow> e = IndexError"
  by (auto simp: slice2_def split: list.splits)
lemma take_axis1_err: "take_axis1 a idx = Inl e \<Longrightarrow> e = IndexError"
  by (auto simp: take_axis1_def split: list.splits if_splits)
lemma take_axis0_err: "take_axis0 a idx = Inl e \<Longrightarrow> e = IndexError"
  by (auto simp: take_axis0_def split: list.splits if_splits)

lemma nv_getitems [nv]:
  "no_val_err (getitem_slices v r c)" "no_val_err (getitem_cols v idx)"
  "no_val_err (getitem_rows v idx)"
  by (auto simp: getitem_slices_def getitem_cols_def getitem_rows_def nv
      split: val.splits sum.splits dest!: slice2_err take_axis1_err take_axis0_err)

lemma pa_convert_array [pa]: "pure_alloc (convert_array a)"
  unfolding convert_array_def by (intro pa) (simp add: pa split: val.splits)

lemma pa_Image_init_obj [pa]: "pure_alloc (Image_init L (FromObject p))"
  unfolding Image_init_def by (simp, intro pa) (simp add: pa split: val.splits)

lemma pa_deepcopy [pa]: "pure_alloc (deepcopy L self)"
  unfolding deepcopy_def by (intro pa)

lemma pa_Image_of [pa]: "pure_alloc (Image_of L v)"
  unfolding Image_of_def by (intro pa)

lemma Image_of_array: "Image_of L (VArr a) \<sigma> =
   (Inr (length (images \<sigma>)), \<sigma>\<lparr>objects := objects \<sigma> @ [VArr a], images := images \<sigma> @ [length (objects \<sigma>)]\<rparr>)"
  by (simp add: Image_of_def Image_init_def seq_def new_object_def deref_def convert_array_def
      ok_def new_image_def)

lemma nv_Image_of_array [nv]: "no_val_err (Image_of L (VArr a))"
  by (simp add: no_val_err_def Image_of_array)


lemma pa_crop_copy: "pure_alloc (crop L tlp brp False self)"
  unfolding crop_def by (intro pa) simp_all

lemma pa_crop2_copy: "pure_alloc (crop2 L tlp h w False self)"
  unfolding crop2_def by (intro pa) simp_all

lemma qu_crop [qu]: "quiet (crop L tlp brp inplace self)"
proof (cases inplace)
  case False
  then show ?thesis by (simp add: pure_quiet pa_crop_copy)
next
  case True
  show ?thesis
    unfolding crop_def True
    by (intro qu_seq_pure qu_if qu_raise pa nv_quiet nv)
qed

lemma nv_seq_cv:
  "(\<And>v. L name args = Some v \<Longrightarrow> no_val_err (f v)) \<Longrightarrow> no_val_err (seq (cv_call L name args) f)"
  unfolding no_val_err_def seq_def cv_call_def Let_def
  by (auto split: option.splits prod.splits sum.splits)

lemma qu_crop2 [qu]: "quiet (crop2 L tlp h w inplace self)"
proof (cases inplace)
  case False
  then show ?thesis by (simp add: pure_quiet pa_crop2_copy)
next
  case True
  show ?thesis
    unfolding crop2_def True
    by (intro qu_seq_pure qu_if qu_raise pa nv_quiet nv)
qed

lemma pa_split: "pure_alloc (split L direction position self)"
  unfolding split_def Let_def
  by (intro pa pa_crop_copy) 

lemma nv_to_BGR [nv]: "no_val_err (to_BGR L self)"
  unfolding to_BGR_def by (intro nv)

lemma qu_blend: "quiet (blend L other alpha self)"
proof (cases other)
  case (VImg i)
  show ?thesis
    unfolding blend_def VImg val.case
    by (intro qu_seq_pure qu_if qu_raise pa nv_quiet nv)
qed (simp_all add: blend_def qu_raise)

lemma nv_channel [nv]: "no_val_err (channel L c self)"
  unfolding channel_def by (intro nv)

lemma qu_negate: "quiet (negate L self)"
  unfolding negate_def by (intro qu_seq_pure qu_if qu_raise pa nv_quiet nv)

lemma qu_blur [qu]: "quiet (blur L ksize method self)"
  unfolding blur_def by (intro qu_seq_pure qu_if qu_raise pa nv_quiet nv)

lemma nv_simple:
  "no_val_err (gaussian_blur L ksize sigma self)" "no_val_err (full_resize L dims interp self)"
  "no_val_err (rotate90 L self)" "no_val_err (rotate_img L angle center self)"
  "no_val_err (gabor L self)" "no_val_err (edges L t1 t2 self)" "no_val_err (sobel L self)"
  "no_val_err (get_corners self)" "no_val_err (to_8UC1 L self)" "no_val_err (to_16UC1 L self)"
  "no_val_err (vertical_shift offset self)" "no_val_err (horizontal_shift offset self)"
  "no_val_err (kmeans L K maxiter epsilon equalize self)"
  unfolding gaussian_blur_def full_resize_def rotate90_def rotate_img_def gabor_def edges_def
    sobel_def get_corners_def to_8UC1_def to_16UC1_def rescale_to_def vertical_shift_def
    horizontal_shift_def kmeans_def Let_def
  by (intro nv)+

lemma qu_resize [qu]: "quiet (resize L param value interp self)"
  unfolding resize_def Let_def by (intro qu_seq_pure qu_if qu_raise pa nv_quiet nv)

lemma qu_equalize_hist: "quiet (equalize_hist L rate self)"
  unfolding equalize_hist_def by (intro qu_seq_pure qu_if qu_raise pa nv_quiet nv)

lemma qu_distance_transform: "quiet (distance_transform L self)"
  unfolding distance_transform_def by (intro qu_seq_pure qu_if qu_raise pa nv_quiet nv)

lemma qu_adaptive_threshold: "quiet (adaptive_threshold L blursize blocksize c self)"
  unfolding adaptive_threshold_def
  apply (rule qu_seq_pure, rule pa)
  apply (rule qu_if, rule qu_raise)
  apply (rule qu_seq_tail)
   apply (intro qu)
  apply (intro nv)
  done

lemma qu_binarize: "quiet (binarize L threshold self)"
  unfolding binarize_def by (intro qu_seq_pure qu_if qu_raise pa nv_quiet nv)

lemma qu_sharpen: "quiet (sharpen L self)"
  unfolding sharpen_def Let_def by (intro qu_seq_pure qu_if qu_raise pa nv_quiet nv)

lemma qu_morphology: "quiet (morphology L code ksize element self)"
  unfolding morphology_def by (intro qu_seq_pure qu_if qu_raise pa nv_quiet nv)

lemma line_strel_even: "ksize mod 2 \<noteq> 1 \<Longrightarrow> line_strel L ksize angle = raise (ValueError ''Size must be odd'')"
  by (simp add: line_strel_def)

lemma nv_line_strel_odd: "ksize mod 2 = 1 \<Longrightarrow> no_val_err (line_strel L ksize angle)"
  unfolding line_strel_def Let_def by (simp, intro nv)

lemma seq_raise: "seq (raise e) f = raise e"
  by (rule ext) (simp add: seq_def raise_def)

lemma pa_loop_even: "ksize mod 2 \<noteq> 1 \<Longrightarrow> pure_alloc (algebric_loop L code ksize self angles result)"
  by (cases angles) (simp_all add: line_strel_even seq_raise pa)

lemma nv_loop_odd: "ksize mod 2 = 1 \<Longrightarrow> no_val_err (algebric_loop L code ksize self angles result)"
proof (induction angles arbitrary: result)
  case Nil
  show ?case by (simp add: nv)
next
  case (Cons a angles)
  show ?case
    unfolding algebric_loop.simps
    by (intro nv nv_line_strel_odd Cons)
qed

lemma qu_algebric: "quiet (algebric L code ksize step self)"
proof (cases "ksize mod 2 = 1")
  case True
  show ?thesis
    unfolding algebric_def Let_def
    by (intro qu_seq_pure qu_if qu_raise pa nv_quiet nv nv_loop_odd True)
next
  case False
  show ?thesis
    unfolding algebric_def Let_def
    by (intro qu_seq_pure qu_if qu_raise pa nv_quiet nv pa_loop_even False)
qed

lemma qu_colorspace [qu]: "quiet (colorspace L code self)"
  unfolding colorspace_def by (intro qu_seq_pure qu_if qu_raise pa nv_quiet nv)

lemma qu_to_GRAY: "quiet (to_GRAY L self)"
  unfolding to_GRAY_def BGR_to_GRAY_def by (intro qu_seq_pure qu_if qu pa)

lemma qu_integral: "quiet (integral L self)"
  unfolding integral_def BGR_to_GRAY_def
  apply (rule qu_seq_pure, rule pa)
  apply (rule qu_seq_tail)
   apply (intro qu)
  apply (intro nv)
  done

lemma qu_get_circle: "quiet (get_circle L min_r max_r dv self)"
  unfolding get_circle_def
  apply (rule qu_seq_pure, rule pa)
  apply (rule qu_if, rule qu_raise)
  apply (rule qu_seq_pure, rule pa)
  apply (rule qu_seq_tail)
   apply (intro qu)
  apply (intro nv)
  done

lemma qu_crop_at_circle: "quiet (crop_at_circle L center radius ratio self)"
  unfolding crop_at_circle_def Let_def by (intro qu)

lemma qu_ring: "quiet (ring L center radii self)"
  unfolding ring_def Let_def by (intro qu_seq_pure qu_if qu_raise pa nv_quiet nv)

lemma nv_filter_loop: "no_val_err (filter_loop L labels stat_col drop_it is concat0)"
proof (induction "is" arbitrary: concat0)
  case Nil
  show ?case by (simp add: nv)
next
  case (Cons i rest)
  show ?case unfolding filter_loop.simps by (intro nv Cons)
qed

lemma nv_filter_components: "no_val_err (filter_components L concat0 stat drop_it part self)"
  unfolding filter_components_def by (intro nv nv_filter_loop)

lemma nv_filters:
  "no_val_err (filter_objects L min_size max_size self)"
  "no_val_err (filter_border2border L coef self)"
  unfolding filter_objects_def filter_border2border_def
  by (intro nv nv_filter_components)+

lemma nv_attr_data [nv]: "no_val_err (attr_data v)"
  by (cases v) (simp_all add: attr_data_def nv)

lemma nv_warp_loop: "no_val_err (warp_loop L M self idxs chs)"
proof (induction idxs arbitrary: chs)
  case Nil
  show ?case by (simp add: nv)
next
  case (Cons i rest)
  show ?case unfolding warp_loop.simps by (intro nv Cons)
qed

lemma qu_warp: "quiet (warp L src dst self)"
  unfolding warp_def Let_def by (intro qu_seq_pure qu_if qu_raise pa nv_quiet nv nv_warp_loop)

lemma qu_show: "quiet (show_img L label disp_height disp_width self)"
  unfolding show_img_def
  apply (rule qu_seq_pure, rule pa)
  apply (rule qu_seq_tail)
   apply (intro qu)
  apply (intro nv)
  done

lemma qu_save: "quiet (save L path self)"
  unfolding save_def Let_def by (intro qu_seq_pure qu_if qu_raise pa nv_quiet nv)

lemma nv_images_of_list: "no_val_err (images_of_list L (map VArr arrs))"
proof (induction arrs)
  case Nil
  show ?case by (simp add: nv)
next
  case (Cons a arrs)
  show ?case by (simp, intro nv Cons)
qed

lemma nv_channels:
  assumes "split_gives_arrays L"
  shows "no_val_err (channels L self)"
proof -
  have tail: "no_val_err (case v of VTuple cs \<Rightarrow> seq (images_of_list L cs) (\<lambda>imgs. ok (VTuple imgs))
      | other \<Rightarrow> raise (BuiltinError ''object is not iterable''))"
    if "L ''split'' args = Some v" for v args
  proof -
    from that assms obtain arrs where "v = VTuple (map VArr arrs)"
      unfolding split_gives_arrays_def by blast
    then show ?thesis
      by (simp, intro nv nv_images_of_list)
  qed
  show ?thesis
    unfolding channels_def
    by (rule nv_seq, rule nv, rule nv_seq_cv, rule tail)
qed

lemma quiet_run: "split_gives_arrays L \<Longrightarrow> quiet (run L c self)"
  by (cases c)
    (simp_all add: qu_blend qu_crop qu_crop2 pure_quiet pa_split pa nv_quiet nv nv_simple
      qu_negate qu_blur qu_resize qu_equalize_hist qu_distance_transform qu_adaptive_threshold
      qu_binarize qu_sharpen qu_morphology open_img_def close_img_def dilate_def erode_def
      tophat_def blackhat_def algebric_open_def algebric_dilate_def qu_algebric qu_get_circle
      qu_crop_at_circle qu_ring nv_filters qu_warp BGR_to_LAB_def LAB_to_BGR_def BGR_to_HSV_def
      HSV_to_BGR_def BGR_to_GRAY_def qu_colorspace qu_to_GRAY qu_show qu_save qu_integral
      nv_channels)

section \<open>Validation errors leave the handle as it was\<close>


lemma prefix_nth: "prefix xs ys \<Longrightarrow> i < length xs \<Longrightarrow> ys ! i = xs ! i"
  by (auto simp: prefix_def nth_append)

lemma grows_frame:
  assumes "grows \<sigma> \<sigma>'" and "valid self \<sigma>"
  shows "effects \<sigma>' = effects \<sigma> \<and> paths \<sigma>' = paths \<sigma>
       \<and> fst (data_val self \<sigma>') = fst (data_val self \<sigma>)
       \<and> fst (shape self \<sigma>') = fst (shape self \<sigma>)"
proof -
  from assms have i: "images \<sigma>' ! self = images \<sigma> ! self"
    by (simp add: grows_def valid_def prefix_nth)
  from assms have o: "objects \<sigma>' ! (images \<sigma> ! self) = objects \<sigma> ! (images \<sigma> ! self)"
    by (simp add: grows_def valid_def prefix_nth)
  have d: "fst (data_val self \<sigma>') = fst (data_val self \<sigma>)"
    by (simp add: data_val_def seq_def get_data_def deref_def i o)
  have "fst (shape self \<sigma>') = fst (shape self \<sigma>)"
    using i o
    by (simp add: shape_def data_val_def seq_def get_data_def deref_def ok_def raise_def split: val.splits)
  with d assms show ?thesis by (simp add: grows_def)
qed

lemma dim_array: "objects \<sigma> ! (images \<sigma> ! self) = VArr a \<Longrightarrow> dim self \<sigma> = (Inr (length (nd_shape a)), \<sigma>)"
  by (simp add: dim_def shape_def data_val_def seq_def get_data_def deref_def ok_def)

text \<open>
  Claim C1. Whenever a public operation ends in one of the package's validation errors
  (a \<open>ValueError\<close> or \<open>TypeError\<close> raised by a check of the operation or of a method it
  calls), no call into OpenCV has been logged, no directory was created, and the handle
  holds the buffer, with the shape, it held before the call. In particular
  \<open>adaptive_threshold\<close> on an array that is not 2D, or with a positive blur size that
  \<open>blur\<close> refuses (below 3, or even), raises a \<open>ValueError\<close> and leaves the whole world as
  it was.
\<close>

theorem validation_error_leaves_state:
  assumes lib: "split_gives_arrays L" and v: "valid self \<sigma>"
  shows "(\<forall>c e \<sigma>'. run L c self \<sigma> = (Inl e, \<sigma>') \<and> is_validation e \<longrightarrow>
            effects \<sigma>' = effects \<sigma> \<and> paths \<sigma>' = paths \<sigma>
            \<and> fst (data_val self \<sigma>') = fst (data_val self \<sigma>)
            \<and> fst (shape self \<sigma>') = fst (shape self \<sigma>))
       \<and> (\<forall>a blursize blocksize c.
            objects \<sigma> ! (images \<sigma> ! self) = VArr a
            \<and> (length (nd_shape a) \<noteq> 2 \<or> (0 < blursize \<and> (blursize < 3 \<or> blursize mod 2 = 0))) \<longrightarrow>
            (\<exists>msg. run L (AdaptiveThreshold blursize blocksize c) self \<sigma> = (Inl (ValueError msg), \<sigma>)))"
proof (intro conjI allI impI)
  fix c e \<sigma>'
  assume h: "run L c self \<sigma> = (Inl e, \<sigma>') \<and> is_validation e"
  from quiet_run[OF lib, of c self] h have "grows \<sigma> \<sigma>'"
    unfolding quiet_def by (metis fst_conv snd_conv)
  from grows_frame[OF this v]
  show "effects \<sigma>' = effects \<sigma>" "paths \<sigma>' = paths \<sigma>"
    "fst (data_val self \<sigma>') = fst (data_val self \<sigma>)" "fst (shape self \<sigma>') = fst (shape self \<sigma>)"
    by simp_all
next
  fix a :: ndarray and blursize blocksize c :: int
  assume h: "objects \<sigma> ! (images \<sigma> ! self) = VArr a
     \<and> (length (nd_shape a) \<noteq> 2 \<or> (0 < blursize \<and> (blursize < 3 \<or> blursize mod 2 = 0)))"
  then show "\<exists>msg. run L (AdaptiveThreshold blursize blocksize c) self \<sigma> = (Inl (ValueError msg), \<sigma>)"
    by (auto simp: adaptive_threshold_def seq_def dim_array raise_def blur_def)
qed

lemma demo_valid: "valid 0 demo_world"
  by (simp add: valid_def demo_world_def)

lemma demo_split: "split_gives_arrays demo_lib"
proof -
  have "\<exists>arrs. [VArr a] = map VArr arrs" for a
    by (rule exI[of _ "[a]"]) simp
  then show ?thesis
    unfolding split_gives_arrays_def demo_lib_def
    by (auto split: list.splits arg.splits val.splits)
qed

theorem validation_error_leaves_state_witness:
  "split_gives_arrays demo_lib \<and> valid 0 demo_world
   \<and> run demo_lib (Blur 4 ''gauss'') 0 demo_world = (Inl (ValueError ''Size must be odd''), demo_world)
   \<and> is_validation (ValueError ''Size must be odd'')
   \<and> fst (data_val 0 demo_world) = Inr (VArr demo_array)
   \<and> (\<exists>msg. run demo_lib (AdaptiveThreshold 4 21 0) 0 demo_world = (Inl (ValueError msg), demo_world))"
proof -
  have r: "run demo_lib (Blur 4 ''gauss'') 0 demo_world = (Inl (ValueError ''Size must be odd''), demo_world)"
    by (simp add: blur_def raise_def)
  have d: "objects demo_world ! (images demo_world ! 0) = VArr demo_array"
    by (simp add: demo_world_def)
  have dv: "fst (data_val 0 demo_world) = Inr (VArr demo_array)"
    by (simp add: data_val_def seq_def get_data_def deref_def demo_world_def)
  note t = validation_error_leaves_state[OF demo_split demo_valid, THEN conjunct2, rule_format,
      of demo_array 4 21 0]
  have "\<exists>msg. run demo_lib (AdaptiveThreshold 4 21 0) 0 demo_world = (Inl (ValueError msg), demo_world)"
    using t d by simp
  with r dv demo_split demo_valid show ?thesis by simp
qed

section \<open>Validation of crop and blur\<close>

lemmas m_defs = ok_def raise_def seq_def get_data_def set_data_def deref_def new_object_def
  new_image_def data_val_def assign_def item_def py_or_def

lemma height_array:
  "objects \<sigma> ! (images \<sigma> ! self) = VArr a \<Longrightarrow> nd_shape a = h # rest \<Longrightarrow> height self \<sigma> = (Inr h, \<sigma>)"
  by (simp add: height_def shape_def m_defs)

lemma width_array:
  "objects \<sigma> ! (images \<sigma> ! self) = VArr a \<Longrightarrow> nd_shape a = h # w # rest \<Longrightarrow> width self \<sigma> = (Inr w, \<sigma>)"
  by (simp add: width_def shape_def m_defs)

text \<open>
  Claim C5. On an image with at least two axes and corners of at least two coordinates,
  \<open>crop\<close> raises a \<open>ValueError\<close> exactly when \<open>tl\<close> has a negative coordinate, or
  \<open>br[0]\<close> exceeds the height or \<open>br[1]\<close> the width, or \<open>tl\<close> is not componentwise
  strictly below \<open>br\<close>; and it raises nothing else, so otherwise no error is raised
  (with \<open>inplace\<close> or without).
\<close>

theorem crop_raises_iff:
  assumes data: "objects \<sigma> ! (images \<sigma> ! self) = VArr a"
    and dim2: "2 \<le> length (nd_shape a)"
    and ltl: "2 \<le> length tlp" and lbr: "2 \<le> length brp"
  shows "fst (height self \<sigma>) = Inr (nd_shape a ! 0) \<and> fst (width self \<sigma>) = Inr (nd_shape a ! 1)
       \<and> ((\<exists>msg. fst (crop L tlp brp inplace self \<sigma>) = Inl (ValueError msg)) \<longleftrightarrow>
            (tlp ! 0 < 0 \<or> tlp ! 1 < 0
             \<or> brp ! 0 > int (nd_shape a ! 0) \<or> brp ! 1 > int (nd_shape a ! 1)
             \<or> \<not> (tlp ! 0 < brp ! 0 \<and> tlp ! 1 < brp ! 1)))
       \<and> ((\<exists>e. fst (crop L tlp brp inplace self \<sigma>) = Inl e) \<longrightarrow>
            (\<exists>msg. fst (crop L tlp brp inplace self \<sigma>) = Inl (ValueError msg)))"
proof -
  obtain h w rest where sh: "nd_shape a = h # w # rest"
    using dim2 by (cases "nd_shape a"; cases "tl (nd_shape a)") auto
  have hw: "fst (height self \<sigma>) = Inr (nd_shape a ! 0) \<and> fst (width self \<sigma>) = Inr (nd_shape a ! 1)"
    using height_array[OF data sh] width_array[OF data sh] by (simp add: sh)
  have "((\<exists>msg. fst (crop L tlp brp inplace self \<sigma>) = Inl (ValueError msg)) \<longleftrightarrow>
            (tlp ! 0 < 0 \<or> tlp ! 1 < 0
             \<or> brp ! 0 > int (nd_shape a ! 0) \<or> brp ! 1 > int (nd_shape a ! 1)
             \<or> \<not> (tlp ! 0 < brp ! 0 \<and> tlp ! 1 < brp ! 1)))
       \<and> ((\<exists>e. fst (crop L tlp brp inplace self \<sigma>) = Inl e) \<longrightarrow>
            (\<exists>msg. fst (crop L tlp brp inplace self \<sigma>) = Inl (ValueError msg)))"
    using data ltl lbr
    by (auto simp: crop_def m_defs shape_def height_def width_def sh getitem_slices_def slice2_def
        Image_of_def Image_init_def convert_array_def split: if_splits sum.splits prod.splits)
  with hw show ?thesis by blast
qed

theorem crop_raises_iff_witness:
  "objects demo_world ! (images demo_world ! 0) = VArr demo_array
   \<and> 2 \<le> length (nd_shape demo_array)
   \<and> (\<exists>msg. fst (crop demo_lib [0, 1] [2, 1] True 0 demo_world) = Inl (ValueError msg))
   \<and> (\<forall>e. fst (crop demo_lib [0, 0] [2, 3] True 0 demo_world) \<noteq> Inl e)"
proof -
  have d: "objects demo_world ! (images demo_world ! 0) = VArr demo_array"
    by (simp add: demo_world_def)
  have s: "2 \<le> length (nd_shape demo_array)"
    by (simp add: demo_array_def)
  have sh: "nd_shape demo_array = [2, 3]"
    by (simp add: demo_array_def)
  have r1: "\<exists>msg. fst (crop demo_lib [0, 1] [2, 1] True 0 demo_world) = Inl (ValueError msg)"
    using crop_raises_iff[OF d s, of "[0, 1]" "[2, 1]" demo_lib True] by (simp add: sh)
  have r2: "\<forall>e. fst (crop demo_lib [0, 0] [2, 3] True 0 demo_world) \<noteq> Inl e"
    using crop_raises_iff[OF d s, of "[0, 0]" "[2, 3]" demo_lib True] by (simp add: sh) blast
  from d s r1 r2 show ?thesis by blast
qed

lemma blur_tail_effect:
  "cv_assign L name args self \<sigma> = (r, \<sigma>') \<Longrightarrow> effects \<sigma>' = effects \<sigma> @ [CvCall name args]"
  by (auto simp: cv_assign_def cv_call_def Let_def m_defs split: option.splits)

text \<open>
  Claim C6. \<open>blur\<close> raises a \<open>ValueError\<close> exactly when the method is not one of gauss,
  average, median, bilateral, or the size is below 3, or the size is even. Every odd size
  from 3 on with a recognised method passes the checks and goes on to exactly one OpenCV
  call (so \<open>blur(3)\<close> is accepted).
\<close>

theorem blur_raises_iff:
  "((\<exists>msg. fst (blur L ksize method self \<sigma>) = Inl (ValueError msg)) \<longleftrightarrow>
      (method \<notin> set [''gauss'', ''average'', ''median'', ''bilateral''] \<or> ksize < 3 \<or> ksize mod 2 = 0))
   \<and> (method \<in> set [''gauss'', ''average'', ''median'', ''bilateral''] \<and> 3 \<le> ksize \<and> ksize mod 2 = 1 \<longrightarrow>
        (\<exists>name args. effects (snd (blur L ksize method self \<sigma>)) = effects \<sigma> @ [CvCall name args]))"
proof (intro conjI iffI impI)
  assume "\<exists>msg. fst (blur L ksize method self \<sigma>) = Inl (ValueError msg)"
  then obtain msg where e: "fst (blur L ksize method self \<sigma>) = Inl (ValueError msg)" ..
  show "method \<notin> set [''gauss'', ''average'', ''median'', ''bilateral''] \<or> ksize < 3 \<or> ksize mod 2 = 0"
  proof (rule ccontr)
    assume n: "\<not> (method \<notin> set [''gauss'', ''average'', ''median'', ''bilateral''] \<or> ksize < 3 \<or> ksize mod 2 = 0)"
    have "no_val_err (blur L ksize method self)"
      unfolding blur_def using n by (simp del: set_simps, intro nv)
    with e show False unfolding no_val_err_def by (metis is_validation.simps(1))
  qed
next
  assume "method \<notin> set [''gauss'', ''average'', ''median'', ''bilateral''] \<or> ksize < 3 \<or> ksize mod 2 = 0"
  then show "\<exists>msg. fst (blur L ksize method self \<sigma>) = Inl (ValueError msg)"
    by (auto simp: blur_def raise_def)
next
  assume a: "method \<in> set [''gauss'', ''average'', ''median'', ''bilateral''] \<and> 3 \<le> ksize \<and> ksize mod 2 = 1"
  obtain d where d: "data_val self \<sigma> = (Inr d, \<sigma>)"
    by (simp add: m_defs)
  from a consider "method = ''gauss''" | "method = ''average''" | "method = ''median''" | "method = ''bilateral''"
    by auto
  then show "\<exists>name args. effects (snd (blur L ksize method self \<sigma>)) = effects \<sigma> @ [CvCall name args]"
  proof cases
    case 1
    then show ?thesis using a d
      by (simp add: blur_def seq_def) (metis blur_tail_effect prod.collapse)
  next
    case 2
    then show ?thesis using a d
      by (simp add: blur_def seq_def) (metis blur_tail_effect prod.collapse)
  next
    case 3
    then show ?thesis using a d
      by (simp add: blur_def seq_def) (metis blur_tail_effect prod.collapse)
  next
    case 4
    then show ?thesis using a d
      by (simp add: blur_def seq_def) (metis blur_tail_effect prod.collapse)
  qed
qed

theorem blur_raises_iff_witness:
  "(\<forall>msg. fst (blur demo_lib 3 ''gauss'' 0 demo_world) \<noteq> Inl (ValueError msg))
   \<and> (\<exists>msg. fst (blur demo_lib 4 ''gauss'' 0 demo_world) = Inl (ValueError msg))
   \<and> (\<exists>msg. fst (blur demo_lib 1 ''gauss'' 0 demo_world) = Inl (ValueError msg))
   \<and> (\<exists>msg. fst (blur demo_lib 5 ''box'' 0 demo_world) = Inl (ValueError msg))"
  using blur_raises_iff[of demo_lib 3 "''gauss''" 0 demo_world]
    blur_raises_iff[of demo_lib 4 "''gauss''" 0 demo_world]
    blur_raises_iff[of demo_lib 1 "''gauss''" 0 demo_world]
    blur_raises_iff[of demo_lib 5 "''box''" 0 demo_world]
  by simp

section \<open>The corners of crop are inclusive\<close>

lemma assign_result:
  "assign self v \<sigma> = (Inr VNone, \<sigma>\<lparr>objects := objects \<sigma> @ [v],
      images := (images \<sigma>)[self := length (objects \<sigma>)]\<rparr>)"
  by (simp add: m_defs)

lemma data_val_after_assign:
  "self < length (images \<sigma>) \<Longrightarrow>
   fst (data_val self (\<sigma>\<lparr>objects := objects \<sigma> @ [v], images := (images \<sigma>)[self := length (objects \<sigma>)]\<rparr>)) = Inr v"
  by (simp add: m_defs)

lemma slice_bounds_inside:
  assumes "0 \<le> t" "t < b" "b < int n"
  shows "slice_bound t n = nat t" "slice_bound (b + 1) n = nat (b + 1)"
    "slice_len t (b + 1) n = nat (b - t + 1)"
  using assms by (auto simp: slice_bound_def slice_len_def)

lemma py_slice_nth:
  assumes "0 \<le> t" "t < b" "b < int (length xs)" "i < nat (b - t + 1)"
  shows "py_slice t (b + 1) xs ! i = xs ! (nat t + i)"
  using assms by (simp add: py_slice_def Let_def slice_bounds_inside)

lemma length_py_slice: "length (py_slice a b xs) = slice_len a b (length xs)"
  by (simp add: py_slice_def slice_len_def Let_def slice_bound_def)

lemma set_py_slice: "set (py_slice a b xs) \<subseteq> set xs"
  unfolding py_slice_def Let_def
  by (meson set_take_subset set_drop_subset subset_trans)

lemma conforms_row: "conforms (w # rest) row \<Longrightarrow> \<exists>cols. row = Ar cols \<and> length cols = w \<and> (\<forall>x\<in>set cols. conforms rest x)"
  by (cases row) auto

lemma conforms_slice2:
  assumes "conforms (h # w # rest) b"
  shows "conforms (slice_len r0 r1 h # slice_len c0 c1 w # rest)
           (Ar (map (\<lambda>row. Ar (py_slice c0 c1 (rows_of row))) (py_slice r0 r1 (rows_of b))))"
proof -
  from assms obtain rows where b: "b = Ar rows" and len: "length rows = h"
    and rows: "\<forall>x\<in>set rows. conforms (w # rest) x"
    by (cases b) auto
  have "conforms (slice_len c0 c1 w # rest) (Ar (py_slice c0 c1 (rows_of row)))"
    if "row \<in> set (py_slice r0 r1 rows)" for row
  proof -
    from that set_py_slice have "row \<in> set rows" by fastforce
    with rows obtain cols where row: "row = Ar cols" and lc: "length cols = w"
      and cs: "\<forall>x\<in>set cols. conforms rest x"
      using conforms_row by blast
    have "\<forall>x\<in>set (py_slice c0 c1 cols). conforms rest x"
      using cs set_py_slice by fastforce
    then show ?thesis
      by (simp add: row rows_of_def length_py_slice lc)
  qed
  then show ?thesis
    by (simp add: b rows_of_def length_py_slice len)
qed

lemma conforms_rows:
  "conforms (h # w # rest) b \<Longrightarrow> length (rows_of b) = h \<and> (\<forall>r\<in>set (rows_of b). length (rows_of r) = w)"
  by (cases b) (auto simp: rows_of_def dest!: conforms_row)

text \<open>
  Claim C8. With \<open>0 \<le> tl < br\<close> componentwise and \<open>br\<close> strictly inside the image,
  \<open>crop(tl, br)\<close> in place succeeds and leaves a buffer of height \<open>br[0] - tl[0] + 1\<close> and
  width \<open>br[1] - tl[1] + 1\<close> (further axes unchanged). For a well-formed buffer the entry at
  \<open>(i, j)\<close> of the result is the entry at \<open>(tl[0] + i, tl[1] + j)\<close> of the original, so
  the rows and columns of both corners are part of the result.
\<close>

theorem crop_inclusive:
  assumes v: "valid self \<sigma>"
    and data: "objects \<sigma> ! (images \<sigma> ! self) = VArr a"
    and sh: "nd_shape a = h # w # rest"
    and ltl: "2 \<le> length tlp" and lbr: "2 \<le> length brp"
    and tl0: "0 \<le> tlp ! 0" and tl1: "0 \<le> tlp ! 1"
    and lt0: "tlp ! 0 < brp ! 0" and lt1: "tlp ! 1 < brp ! 1"
    and br0: "brp ! 0 < int h" and br1: "brp ! 1 < int w"
  shows "\<exists>\<sigma>' b. crop L tlp brp True self \<sigma> = (Inr VNone, \<sigma>')
          \<and> fst (data_val self \<sigma>') = Inr (VArr b)
          \<and> nd_shape b = nat (brp ! 0 - tlp ! 0 + 1) # nat (brp ! 1 - tlp ! 1 + 1) # rest
          \<and> fst (height self \<sigma>') = Inr (nat (brp ! 0 - tlp ! 0 + 1))
          \<and> fst (width self \<sigma>') = Inr (nat (brp ! 1 - tlp ! 1 + 1))
          \<and> (wf_array a \<longrightarrow> wf_array b
                \<and> (\<forall>i j. i < nat (brp ! 0 - tlp ! 0 + 1) \<and> j < nat (brp ! 1 - tlp ! 1 + 1) \<longrightarrow>
                      pixel b i j = pixel a (nat (tlp ! 0) + i) (nat (tlp ! 1) + j)))"
proof -
  define b where "b = \<lparr>nd_shape = slice_len (tlp ! 0) (brp ! 0 + 1) h # slice_len (tlp ! 1) (brp ! 1 + 1) w # rest,
       nd_body = Ar (map (\<lambda>row. Ar (py_slice (tlp ! 1) (brp ! 1 + 1) (rows_of row)))
                         (py_slice (tlp ! 0) (brp ! 0 + 1) (rows_of (nd_body a))))\<rparr>"
  define \<sigma>' where "\<sigma>' = \<sigma>\<lparr>objects := objects \<sigma> @ [VArr b],
      images := (images \<sigma>)[self := length (objects \<sigma>)]\<rparr>"
  have s2: "slice2 a (tlp ! 0, brp ! 0 + 1) (tlp ! 1, brp ! 1 + 1) = Inr b"
    by (simp add: slice2_def sh b_def)
  have run: "crop L tlp brp True self \<sigma> = (Inr VNone, \<sigma>')"
    using data ltl lbr tl0 tl1 lt0 lt1 br0 br1 s2
    by (auto simp: crop_def m_defs shape_def height_def width_def sh getitem_slices_def \<sigma>'_def)
  have dv: "fst (data_val self \<sigma>') = Inr (VArr b)"
    unfolding \<sigma>'_def using v by (simp add: data_val_after_assign valid_def)
  have d': "objects \<sigma>' ! (images \<sigma>' ! self) = VArr b"
    using v by (simp add: \<sigma>'_def valid_def)
  have shb: "nd_shape b = nat (brp ! 0 - tlp ! 0 + 1) # nat (brp ! 1 - tlp ! 1 + 1) # rest"
    using tl0 tl1 lt0 lt1 br0 br1 by (simp add: b_def slice_bounds_inside)
  have hh: "fst (height self \<sigma>') = Inr (nat (brp ! 0 - tlp ! 0 + 1))"
    using height_array[OF d' shb] by simp
  have ww: "fst (width self \<sigma>') = Inr (nat (brp ! 1 - tlp ! 1 + 1))"
    using width_array[OF d' shb] by simp
  have wf: "wf_array b \<and> (\<forall>i j. i < nat (brp ! 0 - tlp ! 0 + 1) \<and> j < nat (brp ! 1 - tlp ! 1 + 1) \<longrightarrow>
        pixel b i j = pixel a (nat (tlp ! 0) + i) (nat (tlp ! 1) + j))" if wfa: "wf_array a"
  proof (intro conjI allI impI)
    from wfa have c: "conforms (h # w # rest) (nd_body a)"
      by (simp add: wf_array_def sh)
    from conforms_slice2[OF c] show "wf_array b"
      by (simp add: wf_array_def b_def)
    fix i j
    assume ij: "i < nat (brp ! 0 - tlp ! 0 + 1) \<and> j < nat (brp ! 1 - tlp ! 1 + 1)"
    from conforms_rows[OF c] have lr: "length (rows_of (nd_body a)) = h"
      and lc: "\<forall>r\<in>set (rows_of (nd_body a)). length (rows_of r) = w" by simp_all
    have br0': "brp ! 0 < int (length (rows_of (nd_body a)))" using br0 lr by simp
    have li: "i < length (py_slice (tlp ! 0) (brp ! 0 + 1) (rows_of (nd_body a)))"
      using ij tl0 lt0 br0 by (simp add: length_py_slice lr slice_bounds_inside)
    have row: "py_slice (tlp ! 0) (brp ! 0 + 1) (rows_of (nd_body a)) ! i
        = rows_of (nd_body a) ! (nat (tlp ! 0) + i)"
      using py_slice_nth[OF tl0 lt0 br0'] ij by simp
    have "nat (tlp ! 0) + i < h" using ij tl0 lt0 br0 by linarith
    then have "rows_of (nd_body a) ! (nat (tlp ! 0) + i) \<in> set (rows_of (nd_body a))"
      using lr by simp
    with lc have lw: "length (rows_of (rows_of (nd_body a) ! (nat (tlp ! 0) + i))) = w" by blast
    have br1': "brp ! 1 < int (length (rows_of (rows_of (nd_body a) ! (nat (tlp ! 0) + i))))"
      using br1 lw by simp
    show "pixel b i j = pixel a (nat (tlp ! 0) + i) (nat (tlp ! 1) + j)"
      using li row py_slice_nth[OF tl1 lt1 br1'] ij
      by (simp add: pixel_def b_def rows_of_def)
  qed
  from run dv shb hh ww wf show ?thesis by blast
qed

lemma demo_wf: "wf_array demo_array"
  by (simp add: wf_array_def demo_array_def)

theorem crop_inclusive_witness:
  "valid 0 demo_world \<and> nd_shape demo_array = 2 # 3 # [] \<and> wf_array demo_array
   \<and> (\<exists>\<sigma>' b. crop demo_lib [0, 0] [1, 2] True 0 demo_world = (Inr VNone, \<sigma>')
          \<and> fst (data_val 0 \<sigma>') = Inr (VArr b)
          \<and> nd_shape b = [2, 3] \<and> pixel b 1 2 = Sc 6)"
proof -
  have d: "objects demo_world ! (images demo_world ! 0) = VArr demo_array"
    by (simp add: demo_world_def)
  have s: "nd_shape demo_array = 2 # 3 # []"
    by (simp add: demo_array_def)
  have p: "pixel demo_array 1 2 = Sc 6"
    by (simp add: pixel_def demo_array_def rows_of_def)
  from crop_inclusive[OF demo_valid d s, of "[0, 0]" "[1, 2]" demo_lib]
  obtain \<sigma>' b where r: "crop demo_lib [0, 0] [1, 2] True 0 demo_world = (Inr VNone, \<sigma>')"
    "fst (data_val 0 \<sigma>') = Inr (VArr b)" "nd_shape b = [2, 3]"
    "wf_array demo_array \<longrightarrow> (\<forall>i j. i < 2 \<and> j < 3 \<longrightarrow> pixel b i j = pixel demo_array i j)"
    by auto
  from r(4) demo_wf p have "pixel b 1 2 = Sc 6" by simp
  with r demo_valid s demo_wf show ?thesis by blast
qed

section \<open>vertical_shift rotates the columns\<close>

lemma shifted_index_range:
  "i \<in> set (rotated_indexes w off) \<Longrightarrow> 0 \<le> i \<and> i < int w"
  by (auto simp: rotated_indexes_def)

lemma shifted_index_norm:
  "i \<in> set (rotated_indexes w off) \<Longrightarrow> norm_index w i = Some (nat i)"
  by (drule shifted_index_range) (simp add: norm_index_def)

lemma conforms_body:
  "conforms (h # w # rest) b \<Longrightarrow>
   \<exists>rows. b = Ar rows \<and> length rows = h \<and> (\<forall>r\<in>set rows. conforms (w # rest) r)"
  by (cases b) auto

lemma take_shifted:
  assumes wf: "wf_array a" and sh: "nd_shape a = h # w # rest"
  shows "\<exists>b. take_axis1 a (rotated_indexes w off) = Inr b \<and> wf_array b \<and> nd_shape b = nd_shape a
           \<and> (\<forall>i j. i < h \<and> j < w \<longrightarrow> pixel b i j = pixel a i (nat ((int j + off) mod int w)))"
proof -
  define b where "b = \<lparr>nd_shape = h # length (rotated_indexes w off) # rest,
      nd_body = Ar (map (\<lambda>row. Ar (map (\<lambda>i. rows_of row ! the (norm_index w i)) (rotated_indexes w off)))
                        (rows_of (nd_body a)))\<rparr>"
  have len: "length (rotated_indexes w off) = w"
    by (simp add: rotated_indexes_def)
  have t: "take_axis1 a (rotated_indexes w off) = Inr b"
    by (auto simp: take_axis1_def sh b_def shifted_index_norm)
  from wf sh obtain rows where body: "nd_body a = Ar rows" and lr: "length rows = h"
    and rows: "\<forall>r\<in>set rows. conforms (w # rest) r"
    using conforms_body[of h w rest "nd_body a"] by (auto simp: wf_array_def)
  have elem: "conforms rest (cols ! nat i)"
    if "i \<in> set (rotated_indexes w off)" "length cols = w" "\<forall>x\<in>set cols. conforms rest x" for i cols
  proof -
    from shifted_index_range[OF that(1)] that(2) have "nat i < length cols" by linarith
    with that(3) show ?thesis by simp
  qed
  have wfb: "wf_array b"
    unfolding wf_array_def b_def
    using rows lr
    by (auto simp: body rows_of_def len shifted_index_norm dest!: conforms_row intro!: elem)
  have px: "pixel b i j = pixel a i (nat ((int j + off) mod int w))" if "i < h \<and> j < w" for i j
  proof -
    from that have m: "rotated_indexes w off ! j = (int j + off) mod int w"
      by (simp add: rotated_indexes_def)
    from that len have "rotated_indexes w off ! j \<in> set (rotated_indexes w off)"
      by simp
    from shifted_index_norm[OF this] have n: "the (norm_index w ((int j + off) mod int w)) = nat ((int j + off) mod int w)"
      by (simp add: m)
    show ?thesis
      using that lr len m n
      by (simp add: pixel_def b_def body rows_of_def)
  qed
  from t wfb px show ?thesis by (auto simp: b_def sh len)
qed

lemma array_ext:
  assumes wa: "wf_array a" and wb: "wf_array b"
    and sa: "nd_shape a = h # w # rest" and sb: "nd_shape b = h # w # rest"
    and px: "\<forall>i j. i < h \<and> j < w \<longrightarrow> pixel b i j = pixel a i j"
  shows "b = a"
proof -
  from wa sa obtain ra where ba: "nd_body a = Ar ra" and la: "length ra = h"
    and ca: "\<forall>r\<in>set ra. conforms (w # rest) r"
    using conforms_body[of h w rest "nd_body a"] by (auto simp: wf_array_def)
  from wb sb obtain rb where bb: "nd_body b = Ar rb" and lb: "length rb = h"
    and cb: "\<forall>r\<in>set rb. conforms (w # rest) r"
    using conforms_body[of h w rest "nd_body b"] by (auto simp: wf_array_def)
  have "rb = ra"
  proof (rule nth_equalityI)
    show "length rb = length ra" using la lb by simp
    fix i assume i: "i < length rb"
    with lb la ca cb obtain xa xb where xa: "ra ! i = Ar xa" "length xa = w"
      and xb: "rb ! i = Ar xb" "length xb = w"
      by (metis conforms_row nth_mem)
    have "xb = xa"
    proof (rule nth_equalityI)
      show "length xb = length xa" using xa xb by simp
      fix j assume "j < length xb"
      with i lb xb px have "pixel b i j = pixel a i j" by simp
      then show "xb ! j = xa ! j"
        by (simp add: pixel_def ba bb rows_of_def xa xb)
    qed
    with xa xb show "rb ! i = ra ! i" by simp
  qed
  with ba bb sa sb show ?thesis by simp
qed

lemma int64_add_inrange: "- (2 ^ 63) \<le> x + y \<Longrightarrow> x + y < 2 ^ 63 \<Longrightarrow> int64_add x y = x + y"
  by (simp add: int64_add_def)

lemma shifted_indexes_inrange:
  assumes "int w + \<bar>off\<bar> < 2 ^ 63"
  shows "shifted_indexes w off \<sigma> = (Inr (rotated_indexes w off), \<sigma>)"
proof -
  have "int64_add (int j) off = int j + off" if "j < w" for j
    using that assms by (intro int64_add_inrange) linarith+
  then have "map (\<lambda>j. int64_add (int j) off mod int w) [0 ..< w] = rotated_indexes w off"
    by (simp add: rotated_indexes_def)
  moreover have "\<not> (off < - (2 ^ 63) \<or> 2 ^ 63 \<le> off)"
    using assms by linarith
  ultimately show ?thesis
    by (simp add: shifted_indexes_def ok_def)
qed

lemma vertical_shift_step:
  assumes data: "objects \<sigma> ! (images \<sigma> ! self) = VArr a"
    and sh: "nd_shape a = h # w # rest" and dims: "length rest \<le> 1"
    and bound: "int w + \<bar>off\<bar> < 2 ^ 63"
    and t: "take_axis1 a (rotated_indexes w off) = Inr b"
  shows "vertical_shift off self \<sigma> = (Inr VNone, \<sigma>\<lparr>objects := objects \<sigma> @ [VArr b],
      images := (images \<sigma>)[self := length (objects \<sigma>)]\<rparr>)"
proof -
  from dims consider "length (nd_shape a) = 2" | "length (nd_shape a) = 3"
    using sh by (cases rest) auto
  then show ?thesis
  proof cases
    case 1
    then show ?thesis using data t
      by (simp add: vertical_shift_def width_def dim_def shape_def m_defs sh getitem_cols_def
          shifted_indexes_inrange[OF bound])
  next
    case 2
    then show ?thesis using data t
      by (simp add: vertical_shift_def width_def dim_def shape_def m_defs sh getitem_cols_def
          shifted_indexes_inrange[OF bound])
  qed
qed

lemma mod_roundtrip:
  assumes "j < w"
  shows "nat ((int (nat ((int j - off) mod int w)) + off) mod int w) = j"
proof -
  from assms have w: "0 < int w" by simp
  then have "0 \<le> (int j - off) mod int w" by simp
  then have "(int (nat ((int j - off) mod int w)) + off) mod int w = ((int j - off) mod int w + off) mod int w"
    by simp
  also have "\<dots> = (int j - off + off) mod int w" by (simp add: mod_add_left_eq)
  also have "\<dots> = int j" using assms by simp
  finally show ?thesis by simp
qed

text \<open>
  Claim C10, as amended. On a well-formed 2D or 3D buffer and for an offset with
  \<open>width + |offset| < 2^63\<close>, \<open>vertical_shift(offset)\<close> succeeds and puts column
  \<open>(j + offset) mod width\<close> of the original at column \<open>j\<close> (rows stay in place);
  following it with \<open>vertical_shift(-offset)\<close> gives back the original buffer, and for
  \<open>width < 2^62\<close> so does \<open>vertical_shift(width)\<close> alone.
\<close>

theorem vertical_shift_roundtrip:
  assumes v: "valid self \<sigma>"
    and data: "objects \<sigma> ! (images \<sigma> ! self) = VArr a"
    and wf: "wf_array a"
    and sh: "nd_shape a = h # w # rest" and dims: "length rest \<le> 1"
    and bound: "int w + \<bar>offset\<bar> < 2 ^ 63" and wide: "int w < 2 ^ 62"
  shows "\<exists>\<sigma>1 \<sigma>2 \<sigma>3 b. vertical_shift offset self \<sigma> = (Inr VNone, \<sigma>1)
          \<and> fst (data_val self \<sigma>1) = Inr (VArr b) \<and> nd_shape b = nd_shape a
          \<and> (\<forall>i j. i < h \<and> j < w \<longrightarrow> pixel b i j = pixel a i (nat ((int j + offset) mod int w)))
          \<and> vertical_shift (- offset) self \<sigma>1 = (Inr VNone, \<sigma>2)
          \<and> fst (data_val self \<sigma>2) = Inr (VArr a)
          \<and> vertical_shift (int w) self \<sigma> = (Inr VNone, \<sigma>3)
          \<and> fst (data_val self \<sigma>3) = Inr (VArr a)"
proof -
  from bound have bound': "int w + \<bar>- offset\<bar> < 2 ^ 63" by simp
  from wide have bound3: "int w + \<bar>int w\<bar> < 2 ^ 63" by simp
  from take_shifted[OF wf sh, of offset] obtain b
    where tb: "take_axis1 a (rotated_indexes w offset) = Inr b" and wb: "wf_array b"
      and sb: "nd_shape b = nd_shape a"
      and pb: "\<forall>i j. i < h \<and> j < w \<longrightarrow> pixel b i j = pixel a i (nat ((int j + offset) mod int w))"
    by blast
  define \<sigma>1 where "\<sigma>1 = \<sigma>\<lparr>objects := objects \<sigma> @ [VArr b],
      images := (images \<sigma>)[self := length (objects \<sigma>)]\<rparr>"
  have s1: "vertical_shift offset self \<sigma> = (Inr VNone, \<sigma>1)"
    unfolding \<sigma>1_def by (rule vertical_shift_step[OF data sh dims bound tb])
  have d1: "objects \<sigma>1 ! (images \<sigma>1 ! self) = VArr b"
    using v by (simp add: \<sigma>1_def valid_def)
  have dv1: "fst (data_val self \<sigma>1) = Inr (VArr b)"
    unfolding \<sigma>1_def using v by (simp add: data_val_after_assign valid_def)
  have v1: "self < length (images \<sigma>1)"
    using v by (simp add: \<sigma>1_def valid_def)
  have sb': "nd_shape b = h # w # rest" using sb sh by simp
  from take_shifted[OF wb sb', of "- offset"] obtain c
    where tc: "take_axis1 b (rotated_indexes w (- offset)) = Inr c" and wc: "wf_array c"
      and sc: "nd_shape c = nd_shape b"
      and pc: "\<forall>i j. i < h \<and> j < w \<longrightarrow> pixel c i j = pixel b i (nat ((int j + - offset) mod int w))"
    by blast
  define \<sigma>2 where "\<sigma>2 = \<sigma>1\<lparr>objects := objects \<sigma>1 @ [VArr c],
      images := (images \<sigma>1)[self := length (objects \<sigma>1)]\<rparr>"
  have s2: "vertical_shift (- offset) self \<sigma>1 = (Inr VNone, \<sigma>2)"
    unfolding \<sigma>2_def by (rule vertical_shift_step[OF d1 sb' dims bound' tc])
  have "pixel c i j = pixel a i j" if ij: "i < h \<and> j < w" for i j
  proof -
    from ij have jw: "j < w" by simp
    then have "0 < int w" by simp
    then have r: "0 \<le> (int j - offset) mod int w" "(int j - offset) mod int w < int w"
      by simp_all
    then have lt: "nat ((int j - offset) mod int w) < w" by linarith
    from pc ij have "pixel c i j = pixel b i (nat ((int j - offset) mod int w))" by simp
    also from pb ij lt have "\<dots> = pixel a i (nat ((int (nat ((int j - offset) mod int w)) + offset) mod int w))"
      by simp
    also have "\<dots> = pixel a i j" by (simp only: mod_roundtrip[OF jw])
    finally show ?thesis .
  qed
  then have ca: "c = a"
    using array_ext[OF wf wc sh] sc sb' by simp
  have dv2: "fst (data_val self \<sigma>2) = Inr (VArr a)"
    unfolding \<sigma>2_def using v1 by (simp add: data_val_after_assign ca)
  from take_shifted[OF wf sh, of "int w"] obtain f
    where tf: "take_axis1 a (rotated_indexes w (int w)) = Inr f" and wff: "wf_array f"
      and sf: "nd_shape f = nd_shape a"
      and pf: "\<forall>i j. i < h \<and> j < w \<longrightarrow> pixel f i j = pixel a i (nat ((int j + int w) mod int w))"
    by blast
  define \<sigma>3 where "\<sigma>3 = \<sigma>\<lparr>objects := objects \<sigma> @ [VArr f],
      images := (images \<sigma>)[self := length (objects \<sigma>)]\<rparr>"
  have s3: "vertical_shift (int w) self \<sigma> = (Inr VNone, \<sigma>3)"
    unfolding \<sigma>3_def by (rule vertical_shift_step[OF data sh dims bound3 tf])
  have "\<forall>i j. i < h \<and> j < w \<longrightarrow> pixel f i j = pixel a i j"
    using pf by simp
  then have fa: "f = a"
    using array_ext[OF wf wff sh] sf sh by simp
  have dv3: "fst (data_val self \<sigma>3) = Inr (VArr a)"
    unfolding \<sigma>3_def using v by (simp add: data_val_after_assign fa valid_def)
  from s1 dv1 sb pb s2 dv2 s3 dv3 show ?thesis by blast
qed

theorem vertical_shift_roundtrip_witness:
  "valid 0 demo_world \<and> wf_array demo_array \<and> nd_shape demo_array = 2 # 3 # []
   \<and> (\<exists>\<sigma>1 \<sigma>2 b. vertical_shift 1 0 demo_world = (Inr VNone, \<sigma>1)
         \<and> fst (data_val 0 \<sigma>1) = Inr (VArr b) \<and> pixel b 0 2 = Sc 1
         \<and> vertical_shift (- 1) 0 \<sigma>1 = (Inr VNone, \<sigma>2)
         \<and> fst (data_val 0 \<sigma>2) = Inr (VArr demo_array))"
proof -
  have d: "objects demo_world ! (images demo_world ! 0) = VArr demo_array"
    by (simp add: demo_world_def)
  have s: "nd_shape demo_array = 2 # 3 # []"
    by (simp add: demo_array_def)
  have p: "pixel demo_array 0 0 = Sc 1"
    by (simp add: pixel_def demo_array_def rows_of_def)
  from vertical_shift_roundtrip[OF demo_valid d demo_wf s, of 1]
  obtain \<sigma>1 \<sigma>2 b where r: "vertical_shift 1 0 demo_world = (Inr VNone, \<sigma>1)"
    "fst (data_val 0 \<sigma>1) = Inr (VArr b)"
    "\<forall>i j. i < 2 \<and> j < 3 \<longrightarrow> pixel b i j = pixel demo_array i (nat ((int j + 1) mod 3))"
    "vertical_shift (- 1) 0 \<sigma>1 = (Inr VNone, \<sigma>2)"
    "fst (data_val 0 \<sigma>2) = Inr (VArr demo_array)"
    by auto
  from r(3) have "pixel b 0 2 = pixel demo_array 0 (nat ((int 2 + 1) mod 3))"
    by simp
  with p have "pixel b 0 2 = Sc 1" by simp
  with r demo_valid demo_wf s show ?thesis by blast
qed


text \<open>The claim as stated fails for offsets near the end of the 64-bit range: on the
  2 x 3 image, shifting by \<open>2^63 - 1\<close> picks the columns 1, 1, 2, and shifting back by
  \<open>-(2^63 - 1)\<close> leaves the columns 2, 1, 1 of the original.\<close>

theorem vertical_shift_roundtrip_counterexample:
  "fst (vertical_shift 9223372036854775807 0 demo_world) = Inr VNone
   \<and> fst (vertical_shift (- 9223372036854775807) 0
           (snd (vertical_shift 9223372036854775807 0 demo_world))) = Inr VNone
   \<and> fst (data_val 0 (snd (vertical_shift (- 9223372036854775807) 0
           (snd (vertical_shift 9223372036854775807 0 demo_world))))) =
       Inr (VArr \<lparr>nd_shape = [2, 3],
                     nd_body = Ar [Ar [Sc 3, Sc 2, Sc 2], Ar [Sc 6, Sc 5, Sc 5]]\<rparr>)
   \<and> fst (data_val 0 demo_world) =
       Inr (VArr \<lparr>nd_shape = [2, 3],
                     nd_body = Ar [Ar [Sc 1, Sc 2, Sc 3], Ar [Sc 4, Sc 5, Sc 6]]\<rparr>)"
proof -
  have up: "[0 ..< 3] = [0, 1, 2]"
    by (simp add: upt_rec)
  have i1: "shifted_indexes 3 9223372036854775807 = ok [1, 1, 2]"
    by (simp add: shifted_indexes_def int64_add_def up)
  have i2: "shifted_indexes 3 (- 9223372036854775807) = ok [2, 0, 1]"
    by (simp add: shifted_indexes_def int64_add_def up)
  define w1 where "w1 = demo_world\<lparr>objects := [VArr demo_array,
          VArr \<lparr>nd_shape = [2, 3], nd_body = Ar [Ar [Sc 2, Sc 2, Sc 3], Ar [Sc 5, Sc 5, Sc 6]]\<rparr>],
        images := [1]\<rparr>"
  define w2 where "w2 = demo_world\<lparr>objects := [VArr demo_array,
          VArr \<lparr>nd_shape = [2, 3], nd_body = Ar [Ar [Sc 2, Sc 2, Sc 3], Ar [Sc 5, Sc 5, Sc 6]]\<rparr>,
          VArr \<lparr>nd_shape = [2, 3], nd_body = Ar [Ar [Sc 3, Sc 2, Sc 2], Ar [Sc 6, Sc 5, Sc 5]]\<rparr>],
        images := [2]\<rparr>"
  have s1: "vertical_shift 9223372036854775807 0 demo_world = (Inr VNone, w1)"
    by (simp add: vertical_shift_def width_def dim_def shape_def i1 m_defs getitem_cols_def
        take_axis1_def norm_index_def rows_of_def demo_world_def demo_array_def w1_def)
  have s2: "vertical_shift (- 9223372036854775807) 0 w1 = (Inr VNone, w2)"
    by (simp add: vertical_shift_def width_def dim_def shape_def i2 m_defs getitem_cols_def
        take_axis1_def norm_index_def rows_of_def demo_world_def demo_array_def w1_def w2_def)
  have d2: "fst (data_val 0 w2) =
       Inr (VArr \<lparr>nd_shape = [2, 3],
                     nd_body = Ar [Ar [Sc 3, Sc 2, Sc 2], Ar [Sc 6, Sc 5, Sc 5]]\<rparr>)"
    by (simp add: m_defs w2_def)
  have d0: "fst (data_val 0 demo_world) =
       Inr (VArr \<lparr>nd_shape = [2, 3],
                     nd_body = Ar [Ar [Sc 1, Sc 2, Sc 3], Ar [Sc 4, Sc 5, Sc 6]]\<rparr>)"
    by (simp add: m_defs demo_world_def demo_array_def)
  show ?thesis
    by (simp only: s1 s2 d2 d0 fst_conv snd_conv simp_thms)
qed

section \<open>show works on a copy of the handle\<close>

named_theorems pr

lemma keeps_refl: "keeps p \<sigma> \<sigma>"
  by (simp add: keeps_def)

lemma keeps_trans: "keeps p a b \<Longrightarrow> keeps p b c \<Longrightarrow> keeps p a c"
  by (auto simp: keeps_def)

lemma pr_ok [pr]: "preserves p (ok x)"
  by (simp add: preserves_def ok_def keeps_refl)

lemma pr_raise [pr]: "preserves p (raise e)"
  by (simp add: preserves_def raise_def keeps_refl)

lemma pr_seq [pr]:
  assumes m: "preserves p m" and f: "\<And>x. preserves p (f x)"
  shows "preserves p (seq m f)"
  unfolding preserves_def
proof (intro allI impI)
  fix \<sigma> :: world
  assume p: "p < length (images \<sigma>)"
  show "keeps p \<sigma> (snd (seq m f \<sigma>))"
  proof (cases "m \<sigma>")
    case (Pair r \<sigma>1)
    with m p have k1: "keeps p \<sigma> \<sigma>1"
      unfolding preserves_def by (metis snd_conv)
    then have p1: "p < length (images \<sigma>1)"
      using p by (simp add: keeps_def)
    show ?thesis
    proof (cases r)
      case (Inl e)
      with Pair k1 show ?thesis by (simp add: seq_def)
    next
      case (Inr x)
      from f[of x] p1 have "keeps p \<sigma>1 (snd (f x \<sigma>1))"
        unfolding preserves_def by blast
      with Pair Inr k1 show ?thesis
        by (auto simp: seq_def intro: keeps_trans)
    qed
  qed
qed

lemma pr_if [pr]: "(c \<Longrightarrow> preserves p a) \<Longrightarrow> (\<not> c \<Longrightarrow> preserves p b) \<Longrightarrow> preserves p (if c then a else b)"
  by simp

lemma pr_prims [pr]:
  "preserves p (get_data q)" "preserves p (deref a)" "preserves p (new_object v)"
  "preserves p (new_image a)" "preserves p (np_call L name args)"
  "preserves p (cv_call L name args)"
  by (auto simp: preserves_def keeps_def get_data_def deref_def new_object_def new_image_def
      np_call_def cv_call_def Let_def nth_append split: option.splits)

lemma pr_set_data [pr]: "q \<noteq> p \<Longrightarrow> preserves p (set_data q a)"
  by (simp add: preserves_def keeps_def set_data_def)

lemma pr_item [pr]: "preserves p (item xs i)"
  by (simp add: item_def pr)

lemma pr_data_val [pr]: "preserves p (data_val q)"
  unfolding data_val_def by (intro pr)

lemma pr_assign [pr]: "q \<noteq> p \<Longrightarrow> preserves p (assign q v)"
  unfolding assign_def by (intro pr)

lemma pr_cv_assign [pr]: "q \<noteq> p \<Longrightarrow> preserves p (cv_assign L name args q)"
  unfolding cv_assign_def by (intro pr)

lemma pr_shape [pr]: "preserves p (shape q)"
  unfolding shape_def by (intro pr) (simp add: pr split: val.splits)

lemma pr_resize: "q \<noteq> p \<Longrightarrow> preserves p (resize L param value interp q)"
  unfolding resize_def Let_def by (intro pr)

lemma deepcopy_result:
  assumes "deepcopy L self \<sigma> = (r, \<sigma>1)" and "self < length (images \<sigma>)"
  shows "keeps self \<sigma> \<sigma>1 \<and> (\<forall>d. r = Inr d \<longrightarrow> d = length (images \<sigma>))"
  using assms
  by (auto simp: deepcopy_def Image_init_def convert_array_def m_defs keeps_def nth_append
      split: val.splits)

text \<open>
  Claim C9. Whatever \<open>label\<close>, \<open>height\<close> and \<open>width\<close> are and however the call ends,
  after \<open>show\<close> the handle is bound to the object it was bound to before and that object
  has not been written to: the resize for display rebinds the \<open>data\<close> of the copy made
  by \<open>deepcopy\<close> (which shares the buffer), never that of the handle.
\<close>

theorem show_leaves_buffer:
  assumes v: "valid self \<sigma>"
  shows "images (snd (show_img L label disp_height disp_width self \<sigma>)) ! self = images \<sigma> ! self
       \<and> fst (data_val self (snd (show_img L label disp_height disp_width self \<sigma>))) = fst (data_val self \<sigma>)
       \<and> fst (shape self (snd (show_img L label disp_height disp_width self \<sigma>))) = fst (shape self \<sigma>)"
proof -
  define rest where "rest = (\<lambda>display.
     seq (if disp_height \<noteq> 0
            then resize L ''height'' (of_int disp_height) (Str ''INTER_AREA'') display
          else if disp_width \<noteq> 0
            then resize L ''width'' (of_int disp_width) (Str ''INTER_AREA'') display
          else ok VNone) (\<lambda>u.
     seq (data_val display) (\<lambda>d.
     seq (cv_call L ''imshow'' [Str label, Obj d]) (\<lambda>u.
     seq (cv_call L ''waitKey'' [Obj (VInt 0)]) (\<lambda>u. ok VNone)))))"
  have sh: "show_img L label disp_height disp_width self = seq (deepcopy L self) rest"
    by (simp add: show_img_def rest_def)
  have pr_rest: "preserves self (rest d)" if "d \<noteq> self" for d
    unfolding rest_def using that by (intro pr pr_resize)
  from v have p: "self < length (images \<sigma>)" by (simp add: valid_def)
  have k: "keeps self \<sigma> (snd (show_img L label disp_height disp_width self \<sigma>))"
  proof (cases "deepcopy L self \<sigma>")
    case (Pair r \<sigma>1)
    from deepcopy_result[OF Pair p] have k1: "keeps self \<sigma> \<sigma>1"
      and d: "\<forall>d. r = Inr d \<longrightarrow> d = length (images \<sigma>)" by simp_all
    show ?thesis
    proof (cases r)
      case (Inl e)
      with Pair k1 show ?thesis by (simp add: sh seq_def)
    next
      case (Inr display)
      with d p have ne: "display \<noteq> self" by simp
      from k1 p have "self < length (images \<sigma>1)" by (simp add: keeps_def)
      with pr_rest[OF ne] have "keeps self \<sigma>1 (snd (rest display \<sigma>1))"
        unfolding preserves_def by blast
      with Pair Inr k1 show ?thesis
        by (auto simp: sh seq_def intro: keeps_trans)
    qed
  qed
  define \<sigma>' where "\<sigma>' = snd (show_img L label disp_height disp_width self \<sigma>)"
  from k have i: "images \<sigma>' ! self = images \<sigma> ! self"
    by (simp add: keeps_def \<sigma>'_def)
  from k v have o: "objects \<sigma>' ! (images \<sigma> ! self) = objects \<sigma> ! (images \<sigma> ! self)"
    by (simp add: keeps_def valid_def prefix_nth \<sigma>'_def)
  have d: "fst (data_val self \<sigma>') = fst (data_val self \<sigma>)"
    by (simp add: data_val_def seq_def get_data_def deref_def i o)
  have "fst (shape self \<sigma>') = fst (shape self \<sigma>)"
    using i o
    by (simp add: shape_def data_val_def seq_def get_data_def deref_def ok_def raise_def split: val.splits)
  with i d show ?thesis by (simp add: \<sigma>'_def)
qed

theorem show_leaves_buffer_witness:
  "valid 0 demo_world
   \<and> fst (show_img demo_lib ''w'' 4 0 0 demo_world) = Inr VNone
   \<and> effects (snd (show_img demo_lib ''w'' 4 0 0 demo_world)) =
       [CvCall ''resize'' [Obj (VArr demo_array), Obj (VTuple [VInt 6, VInt 4]), Str ''INTER_AREA''],
        CvCall ''imshow'' [Str ''w'', Obj (VArr demo_array)],
        CvCall ''waitKey'' [Obj (VInt 0)]]
   \<and> fst (data_val 0 (snd (show_img demo_lib ''w'' 4 0 0 demo_world))) = Inr (VArr demo_array)"
proof -
  have e: "show_img demo_lib ''w'' 4 0 0 demo_world =
      (Inr VNone, demo_world\<lparr>objects := [VArr demo_array, VArr demo_array], images := [0, 1],
         effects := [CvCall ''resize'' [Obj (VArr demo_array), Obj (VTuple [VInt 6, VInt 4]), Str ''INTER_AREA''],
        CvCall ''imshow'' [Str ''w'', Obj (VArr demo_array)],
        CvCall ''waitKey'' [Obj (VInt 0)]]\<rparr>)"
    by (simp add: show_img_def deepcopy_def Image_init_def convert_array_def m_defs resize_def
        shape_def cv_assign_def cv_call_def demo_lib_def demo_world_def demo_array_def py_int_def Let_def)
  have dv: "fst (data_val 0 demo_world) = Inr (VArr demo_array)"
    by (simp add: m_defs demo_world_def)
  from show_leaves_buffer[OF demo_valid, of demo_lib "''w''" 4 0] dv e demo_valid
  show ?thesis by simp
qed

section \<open>save: the extension check and the destination folder\<close>

lemma py_split_nonempty: "py_split c s \<noteq> []"
  by (induction s) (auto split: list.splits)

lemma py_split_single: "(\<exists>w. py_split c s = [w]) \<longleftrightarrow> c \<notin> set s"
  by (induction s) (auto split: list.splits simp: py_split_nonempty)

lemma py_split_single_eq: "c \<notin> set s \<Longrightarrow> py_split c s = [s]"
  by (induction s) (auto split: list.splits)

lemma join_split: "py_join [c] (py_split c s) = s"
proof (induction s)
  case Nil
  show ?case by simp
next
  case (Cons x xs)
  obtain w ws where sp: "py_split c xs = w # ws"
    using py_split_nonempty[of c xs] by (cases "py_split c xs") auto
  show ?case
  proof (cases "x = c")
    case True
    with Cons sp show ?thesis by simp
  next
    case False
    with Cons sp show ?thesis by (cases ws) auto
  qed
qed

lemma last_split: "last (py_split c s) = rev (takeWhile (\<lambda>x. x \<noteq> c) (rev s))"
proof (induction s)
  case Nil
  show ?case by simp
next
  case (Cons x xs)
  obtain w ws where sp: "py_split c xs = w # ws"
    using py_split_nonempty[of c xs] by (cases "py_split c xs") auto
  show ?case
  proof (cases "c \<in> set xs")
    case True
    then have "ws \<noteq> []" using py_split_single[of c xs] sp by auto
    then have l: "last (py_split c (x # xs)) = last (py_split c xs)"
      using sp by auto
    from True have "takeWhile (\<lambda>x. x \<noteq> c) (rev xs @ [x]) = takeWhile (\<lambda>x. x \<noteq> c) (rev xs)"
      by (simp add: takeWhile_append1)
    with l Cons show ?thesis by simp
  next
    case False
    then have s1: "py_split c xs = [xs]" by (rule py_split_single_eq)
    have tw: "takeWhile (\<lambda>x. x \<noteq> c) (rev xs @ ys) = rev xs @ takeWhile (\<lambda>x. x \<noteq> c) ys" for ys
      using False by (intro takeWhile_append2) auto
    show ?thesis
      by (cases "x = c") (simp_all add: s1 tw)
  qed
qed

lemma folder_in_ancestors:
  assumes "folder \<noteq> []"
  shows "folder \<in> set (ancestors folder)"
proof -
  define comps where "comps = py_split CHR ''/'' folder"
  have ne: "comps \<noteq> []" by (simp add: comps_def py_split_nonempty)
  then have k: "length comps - 1 < length comps" by simp
  have "py_join ''/'' (take (Suc (length comps - 1)) comps) = folder"
    using ne join_split[of "CHR ''/''" folder] by (simp add: comps_def)
  then have "folder \<in> (\<lambda>k. py_join ''/'' (take (Suc k) comps)) ` {0 ..< length comps}"
    using k by (metis (no_types, lifting) atLeastLessThan_iff image_eqI zero_le)
  with assms show ?thesis
    by (simp add: ancestors_def Let_def comps_def)
qed

lemma save_accepted:
  assumes "last (py_split CHR ''.'' path) \<in> set [''jpg'', ''jpeg'', ''png'']"
  shows "save L path self =
     seq (if destination_folder path \<noteq> []
          then seq (path_exists (destination_folder path)) (\<lambda>found.
               if \<not> found then mkdir_parents (destination_folder path) else ok ())
          else ok ()) (\<lambda>u.
     seq (data_val self) (\<lambda>d.
     seq (cv_call L ''imwrite'' [Str path, Obj d]) (\<lambda>u. ok VNone)))"
  using assms by (simp add: save_def Let_def del: set_simps)

text \<open>
  Claim C7. \<open>save\<close> raises a \<open>ValueError\<close> exactly when the last dot-separated field of
  the path, which is what follows the last dot (the whole path when it has no dot), is
  not one of jpg, jpeg, png. For an accepted path whose directory part is not empty and
  does not exist, \<open>save\<close> first creates that directory with its parents and then writes
  the file; when the directory part is empty or exists, it only writes the file.
\<close>

theorem save_checks_extension_and_makes_folder:
  "((\<exists>msg. fst (save L path self \<sigma>) = Inl (ValueError msg)) \<longleftrightarrow>
      rev (takeWhile (\<lambda>c. c \<noteq> CHR ''.'') (rev path)) \<notin> set [''jpg'', ''jpeg'', ''png''])
   \<and> (rev (takeWhile (\<lambda>c. c \<noteq> CHR ''.'') (rev path)) \<in> set [''jpg'', ''jpeg'', ''png'']
        \<and> destination_folder path \<noteq> [] \<and> destination_folder path \<notin> set (paths \<sigma>) \<longrightarrow>
        effects (snd (save L path self \<sigma>)) =
          effects \<sigma> @ [Mkdir (destination_folder path),
                        CvCall ''imwrite'' [Str path, Obj (objects \<sigma> ! (images \<sigma> ! self))]]
        \<and> destination_folder path \<in> set (paths (snd (save L path self \<sigma>)))
        \<and> set (ancestors (destination_folder path)) \<subseteq> set (paths (snd (save L path self \<sigma>))))
   \<and> (rev (takeWhile (\<lambda>c. c \<noteq> CHR ''.'') (rev path)) \<in> set [''jpg'', ''jpeg'', ''png'']
        \<and> (destination_folder path = [] \<or> destination_folder path \<in> set (paths \<sigma>)) \<longrightarrow>
        effects (snd (save L path self \<sigma>)) =
          effects \<sigma> @ [CvCall ''imwrite'' [Str path, Obj (objects \<sigma> ! (images \<sigma> ! self))]]
        \<and> paths (snd (save L path self \<sigma>)) = paths \<sigma>)"
proof (intro conjI impI)
  show "(\<exists>msg. fst (save L path self \<sigma>) = Inl (ValueError msg)) \<longleftrightarrow>
      rev (takeWhile (\<lambda>c. c \<noteq> CHR ''.'') (rev path)) \<notin> set [''jpg'', ''jpeg'', ''png'']"
  proof
    assume "\<exists>msg. fst (save L path self \<sigma>) = Inl (ValueError msg)"
    then obtain msg where e: "fst (save L path self \<sigma>) = Inl (ValueError msg)" ..
    show "rev (takeWhile (\<lambda>c. c \<noteq> CHR ''.'') (rev path)) \<notin> set [''jpg'', ''jpeg'', ''png'']"
    proof
      assume "rev (takeWhile (\<lambda>c. c \<noteq> CHR ''.'') (rev path)) \<in> set [''jpg'', ''jpeg'', ''png'']"
      then have acc: "last (py_split CHR ''.'' path) \<in> set [''jpg'', ''jpeg'', ''png'']"
        unfolding last_split .
      have "no_val_err (save L path self)"
        unfolding save_accepted[OF acc] by (intro nv)
      with e show False unfolding no_val_err_def by (metis is_validation.simps(1))
    qed
  next
    assume "rev (takeWhile (\<lambda>c. c \<noteq> CHR ''.'') (rev path)) \<notin> set [''jpg'', ''jpeg'', ''png'']"
    then have "last (py_split CHR ''.'' path) \<notin> set [''jpg'', ''jpeg'', ''png'']"
      unfolding last_split .
    then show "\<exists>msg. fst (save L path self \<sigma>) = Inl (ValueError msg)"
      by (simp add: save_def raise_def del: set_simps)
  qed
next
  assume a: "rev (takeWhile (\<lambda>c. c \<noteq> CHR ''.'') (rev path)) \<in> set [''jpg'', ''jpeg'', ''png'']
        \<and> destination_folder path \<noteq> [] \<and> destination_folder path \<notin> set (paths \<sigma>)"
  then have acc: "last (py_split CHR ''.'' path) \<in> set [''jpg'', ''jpeg'', ''png'']"
    unfolding last_split by (rule conjunct1)
  from a have f: "destination_folder path \<noteq> []" "destination_folder path \<notin> set (paths \<sigma>)"
    by simp_all
  have st: "snd (save L path self \<sigma>) =
      \<sigma>\<lparr>effects := effects \<sigma> @ [Mkdir (destination_folder path),
                        CvCall ''imwrite'' [Str path, Obj (objects \<sigma> ! (images \<sigma> ! self))]],
        paths := paths \<sigma> @ ancestors (destination_folder path)\<rparr>"
    unfolding save_accepted[OF acc] using f
    by (simp add: m_defs path_exists_def mkdir_parents_def cv_call_def Let_def split: option.splits)
  show "effects (snd (save L path self \<sigma>)) =
          effects \<sigma> @ [Mkdir (destination_folder path),
                        CvCall ''imwrite'' [Str path, Obj (objects \<sigma> ! (images \<sigma> ! self))]]"
    by (simp add: st)
  show "destination_folder path \<in> set (paths (snd (save L path self \<sigma>)))"
    using folder_in_ancestors[OF f(1)] by (simp add: st)
  show "set (ancestors (destination_folder path)) \<subseteq> set (paths (snd (save L path self \<sigma>)))"
    by (simp add: st)
next
  assume a: "rev (takeWhile (\<lambda>c. c \<noteq> CHR ''.'') (rev path)) \<in> set [''jpg'', ''jpeg'', ''png'']
        \<and> (destination_folder path = [] \<or> destination_folder path \<in> set (paths \<sigma>))"
  then have acc: "last (py_split CHR ''.'' path) \<in> set [''jpg'', ''jpeg'', ''png'']"
    unfolding last_split by (rule conjunct1)
  from a have f: "destination_folder path = [] \<or> destination_folder path \<in> set (paths \<sigma>)"
    by simp
  have st: "snd (save L path self \<sigma>) =
      \<sigma>\<lparr>effects := effects \<sigma> @ [CvCall ''imwrite'' [Str path, Obj (objects \<sigma> ! (images \<sigma> ! self))]]\<rparr>"
    unfolding save_accepted[OF acc] using f
    by (auto simp: m_defs path_exists_def mkdir_parents_def cv_call_def Let_def split: option.splits)
  show "effects (snd (save L path self \<sigma>)) =
          effects \<sigma> @ [CvCall ''imwrite'' [Str path, Obj (objects \<sigma> ! (images \<sigma> ! self))]]"
    by (simp add: st)
  show "paths (snd (save L path self \<sigma>)) = paths \<sigma>"
    by (simp add: st)
qed

lemma demo_folder: "destination_folder ''out/a/x.png'' = ''out/a''"
  by (simp add: destination_folder_def py_replace_def py_slice_def slice_bound_def Let_def)

theorem save_checks_extension_and_makes_folder_witness:
  "rev (takeWhile (\<lambda>c. c \<noteq> CHR ''.'') (rev ''out/a/x.png'')) = ''png''
   \<and> destination_folder ''out/a/x.png'' = ''out/a''
   \<and> effects (snd (save demo_lib ''out/a/x.png'' 0 demo_world)) =
        [Mkdir ''out/a'', CvCall ''imwrite'' [Str ''out/a/x.png'', Obj (VArr demo_array)]]
   \<and> ''out/a'' \<in> set (paths (snd (save demo_lib ''out/a/x.png'' 0 demo_world)))
   \<and> (\<exists>msg. fst (save demo_lib ''x.gif'' 0 demo_world) = Inl (ValueError msg))
   \<and> effects (snd (save demo_lib ''x.jpg'' 0 demo_world)) =
        [CvCall ''imwrite'' [Str ''x.jpg'', Obj (VArr demo_array)]]"
proof -
  have e: "rev (takeWhile (\<lambda>c. c \<noteq> CHR ''.'') (rev ''out/a/x.png'')) = ''png''"
    "rev (takeWhile (\<lambda>c. c \<noteq> CHR ''.'') (rev ''x.gif'')) = ''gif''"
    "rev (takeWhile (\<lambda>c. c \<noteq> CHR ''.'') (rev ''x.jpg'')) = ''jpg''"
    by simp_all
  have f2: "destination_folder ''x.jpg'' = []"
    by (simp add: destination_folder_def py_replace_def py_slice_def slice_bound_def Let_def)
  have w: "paths demo_world = []" "effects demo_world = []"
    "objects demo_world ! (images demo_world ! 0) = VArr demo_array"
    by (simp_all add: demo_world_def)
  note t1 = save_checks_extension_and_makes_folder[of demo_lib "''out/a/x.png''" 0 demo_world]
  note t2 = save_checks_extension_and_makes_folder[of demo_lib "''x.gif''" 0 demo_world]
  note t3 = save_checks_extension_and_makes_folder[of demo_lib "''x.jpg''" 0 demo_world]
  have r1: "effects (snd (save demo_lib ''out/a/x.png'' 0 demo_world)) =
        [Mkdir ''out/a'', CvCall ''imwrite'' [Str ''out/a/x.png'', Obj (VArr demo_array)]]
     \<and> ''out/a'' \<in> set (paths (snd (save demo_lib ''out/a/x.png'' 0 demo_world)))"
    using t1 by (simp add: e demo_folder w)
  have r2: "\<exists>msg. fst (save demo_lib ''x.gif'' 0 demo_world) = Inl (ValueError msg)"
    using t2 by (simp add: e)
  have r3: "effects (snd (save demo_lib ''x.jpg'' 0 demo_world)) =
        [CvCall ''imwrite'' [Str ''x.jpg'', Obj (VArr demo_array)]]"
    using t3 by (simp add: e f2 w)
  from e(1) demo_folder r1 r2 r3 show ?thesis by blast
qed

section \<open>Construction, and two checks that go wrong\<close>

text \<open>
  Claim C2, as amended. A handle built from a raw in-memory array is bound to that very
  array, whose number of axes is not checked: the handle's dimensionality is the array's
  (2 or 3 exactly when the array's is). For every handle holding an array, \<open>shape\<close>,
  \<open>dim\<close>, \<open>height\<close> and \<open>width\<close> are read from the buffer currently held; \<open>height\<close> and
  \<open>width\<close> raise an \<open>IndexError\<close> when the buffer has too few axes.
\<close>

theorem handle_reads_its_buffer:
  "(objects \<sigma> ! p = VArr a \<longrightarrow>
      Image_init L (FromObject p) \<sigma> = (Inr (length (images \<sigma>)), \<sigma>\<lparr>images := images \<sigma> @ [p]\<rparr>)
      \<and> fst (get_data (length (images \<sigma>)) (\<sigma>\<lparr>images := images \<sigma> @ [p]\<rparr>)) = Inr p
      \<and> fst (dim (length (images \<sigma>)) (\<sigma>\<lparr>images := images \<sigma> @ [p]\<rparr>)) = Inr (length (nd_shape a)))
   \<and> (objects \<sigma> ! (images \<sigma> ! self) = VArr b \<longrightarrow>
      fst (shape self \<sigma>) = Inr (nd_shape b)
      \<and> fst (dim self \<sigma>) = Inr (length (nd_shape b))
      \<and> fst (height self \<sigma>) = (if 0 < length (nd_shape b) then Inr (nd_shape b ! 0) else Inl IndexError)
      \<and> fst (width self \<sigma>) = (if 1 < length (nd_shape b) then Inr (nd_shape b ! 1) else Inl IndexError))"
  by (simp add: Image_init_def convert_array_def dim_def shape_def height_def width_def m_defs)

theorem handle_reads_its_buffer_witness:
  "objects vector_world ! 0 = VArr demo_vector
   \<and> Image_init demo_lib (FromObject 0) vector_world = (Inr 0, vector_world\<lparr>images := [0]\<rparr>)
   \<and> fst (dim 0 (vector_world\<lparr>images := [0]\<rparr>)) = Inr 1
   \<and> fst (shape 0 demo_world) = Inr [2, 3] \<and> fst (width 0 demo_world) = Inr 3"
proof -
  have o: "objects vector_world ! 0 = VArr demo_vector" "images vector_world = []"
    "length (nd_shape demo_vector) = 1"
    by (simp_all add: vector_world_def demo_vector_def)
  have d: "objects demo_world ! (images demo_world ! 0) = VArr demo_array"
    "nd_shape demo_array = [2, 3]"
    by (simp_all add: demo_world_def demo_array_def)
  from handle_reads_its_buffer[of vector_world 0 demo_vector demo_lib 0 demo_array] o
  have 1: "Image_init demo_lib (FromObject 0) vector_world = (Inr 0, vector_world\<lparr>images := [0]\<rparr>)
      \<and> fst (dim 0 (vector_world\<lparr>images := [0]\<rparr>)) = Inr 1"
    by simp
  from handle_reads_its_buffer[of demo_world 0 demo_array demo_lib 0 demo_array] d
  have 2: "fst (shape 0 demo_world) = Inr [2, 3] \<and> fst (width 0 demo_world) = Inr 3"
    by simp
  from o(1) 1 2 show ?thesis by blast
qed

text \<open>The claim as stated fails: a handle built from a one-axis array has dimensionality 1.\<close>

theorem dim_not_2_or_3_counterexample:
  "Image_init demo_lib (FromObject 0) vector_world = (Inr 0, vector_world\<lparr>images := [0]\<rparr>)
   \<and> fst (dim 0 (vector_world\<lparr>images := [0]\<rparr>)) = Inr 1"
  by (simp add: Image_init_def convert_array_def dim_def shape_def m_defs vector_world_def
      demo_vector_def)

lemma crop_at_circle_rejects_positive_radius:
  "length center = 2 \<Longrightarrow> 0 < radius \<Longrightarrow>
   crop_at_circle L center radius ratio self \<sigma> = (Inl (ValueError ''radius must be positive''), \<sigma>)"
  by (simp add: crop_at_circle_def raise_def Let_def)

text \<open>
  Claim C3 (the code departs from it). \<open>crop_at_circle\<close> raises when the radius is
  positive and when the ratio is positive: with a center of length 2, every call with a
  positive radius ends in the error "radius must be positive", and nothing is cropped.
\<close>

theorem crop_at_circle_valid_arguments_raise:
  "crop_at_circle demo_lib [1, 1] 1 (Ratio 1) 0 demo_world =
     (Inl (ValueError ''radius must be positive''), demo_world)"
  by (simp add: crop_at_circle_def raise_def Let_def)

lemma line_strel_attribute_error:
  "ksize mod 2 = 1 \<Longrightarrow> 0 \<le> ksize \<Longrightarrow>
   line_strel L ksize angle \<sigma> = (Inl (AttributeError ''height''), \<sigma>)"
  by (simp add: line_strel_def np_zeros_of_def ndarray_attr_def m_defs)

lemma py_range_first:
  "0 < step \<Longrightarrow> start < stop \<Longrightarrow> \<exists>rest. py_range start stop step \<sigma> = (Inr (start # rest), \<sigma>)"
proof -
  assume s: "0 < step" and l: "start < stop"
  then have "0 < (stop - start + step - 1) div step"
    by (simp add: pos_imp_zdiv_pos_iff)
  then obtain k where k: "nat ((stop - start + step - 1) div step) = Suc k"
    by (metis Suc_pred zero_less_nat_eq)
  show ?thesis
    using s by (simp add: py_range_def ok_def k upt_conv_Cons del: upt_Suc)
qed

lemma algebric_open_attribute_error:
  assumes data: "objects \<sigma> ! (images \<sigma> ! self) = VArr a"
    and d2: "length (nd_shape a) = 2"
    and odd: "ksize mod 2 = 1" "0 \<le> ksize" and step: "0 < step"
  shows "algebric_open L ksize step self \<sigma> = (Inl (AttributeError ''height''), \<sigma>)"
proof -
  from py_range_first[OF step, of 0 180 \<sigma>] obtain rest
    where r: "py_range 0 180 step \<sigma> = (Inr (0 # rest), \<sigma>)" by auto
  have sh: "shape self \<sigma> = (Inr (nd_shape a), \<sigma>)"
    using data by (simp add: shape_def m_defs)
  show ?thesis
    using d2 r sh line_strel_attribute_error[OF odd]
    by (simp add: algebric_open_def algebric_def dim_def seq_def ok_def Let_def)
qed

text \<open>
  Claim C4 (the code departs from it). \<open>line_strel\<close> reads \<open>line.height\<close> on a numpy array,
  which has no such attribute: for an odd size that is not negative it always ends in an
  \<open>AttributeError\<close>, and so does \<open>algebric_open\<close> on a 2D image for every such size and
  every positive angle step; the buffer is never replaced.
\<close>

theorem algebric_open_raises:
  "algebric_open demo_lib 5 5 0 demo_world = (Inl (AttributeError ''height''), demo_world)"
proof -
  have "objects demo_world ! (images demo_world ! 0) = VArr demo_array"
    "length (nd_shape demo_array) = 2"
    by (simp_all add: demo_world_def demo_array_def)
  then show ?thesis
    by (rule algebric_open_attribute_error) simp_all
qed

end
